theory Spec2Isabelle
  imports Complex_Main "HOL-Library.AList" "HOL-Library.Multiset"
begin

section \<open>Detection merger (smart_attendance_system.py)\<close>

text \<open>
  A face box is the tuple \<open>(t, r, b, l)\<close> (top, right, bottom, left) of pixel coordinates that
  \<^verbatim>\<open>face_recognition.face_locations\<close> returns. Python integers are unbounded, so the
  coordinates are \<open>int\<close>; Python's \<^verbatim>\<open>//\<close> is floor division, which is \<open>div\<close> on \<open>int\<close>.
\<close>

type_synonym box = "int \<times> int \<times> int \<times> int"

definition face_center :: "box \<Rightarrow> int \<times> int" where
  "face_center face =
     (case face of (t, r, b, l) \<Rightarrow> ((l + r) div 2, (t + b) div 2))"

definition face_size :: "box \<Rightarrow> int" where
  "face_size face = (case face of (t, r, b, l) \<Rightarrow> max (r - l) (b - t))"

text \<open>
  \<^verbatim>\<open>distance = ((cx - ex) ** 2 + (cy - ey) ** 2) ** 0.5\<close>: the Euclidean distance of the
  two integer midpoints, read as a real number.
\<close>

definition center_distance :: "box \<Rightarrow> box \<Rightarrow> real" where
  "center_distance face existing_face =
     (case face_center face of (cx, cy) \<Rightarrow>
      case face_center existing_face of (ex, ey) \<Rightarrow>
        sqrt (real_of_int ((cx - ex)\<^sup>2 + (cy - ey)\<^sup>2)))"

text \<open>\<^verbatim>\<open>distance < min_size * 0.5\<close> with \<^verbatim>\<open>min_size = min(face_size, existing size)\<close>.\<close>

definition too_close :: "box \<Rightarrow> box \<Rightarrow> bool" where
  "too_close face existing_face \<longleftrightarrow>
     center_distance face existing_face
       < real_of_int (min (face_size face) (face_size existing_face)) * 0.5"

text \<open>The inner loop: \<^verbatim>\<open>is_duplicate\<close> becomes true at the first kept box that is too close.\<close>

definition is_duplicate :: "box \<Rightarrow> box list \<Rightarrow> bool" where
  "is_duplicate face unique_faces = list_ex (too_close face) unique_faces"

text \<open>The outer loop over \<^verbatim>\<open>face_locations\<close>, with \<^verbatim>\<open>unique_faces\<close> as accumulator.\<close>

fun dedup_loop :: "box list \<Rightarrow> box list \<Rightarrow> box list" where
  "dedup_loop unique_faces [] = unique_faces"
| "dedup_loop unique_faces (face # rest) =
     (if is_duplicate face unique_faces then dedup_loop unique_faces rest
      else dedup_loop (unique_faces @ [face]) rest)"

definition remove_duplicate_faces :: "box list \<Rightarrow> box list" where
  "remove_duplicate_faces face_locations =
     (if length face_locations \<le> 1 then face_locations else dedup_loop [] face_locations)"

definition face_area :: "box \<Rightarrow> int" where
  "face_area loc = (case loc of (t, r, b, l) \<Rightarrow> (b - t) * (r - l))"

definition valid_face :: "int \<Rightarrow> box \<Rightarrow> bool" where
  "valid_face min_face_size location =
     (case location of (t, r, b, l) \<Rightarrow>
        b - t \<ge> min_face_size \<and> r - l \<ge> min_face_size)"

text \<open>
  \<^verbatim>\<open>valid_faces.sort(key=area, reverse=True)\<close> is a stable sort by descending area;
  \<open>sort_key\<close> is stable as well, so the key is the negated area.
\<close>

definition filter_and_validate_faces :: "int \<Rightarrow> box list \<Rightarrow> box list" where
  "filter_and_validate_faces min_face_size face_locations =
     sort_key (\<lambda>loc. - face_area loc) (filter (valid_face min_face_size) face_locations)"

text \<open>
  No kept box is too close to a box kept before it: the list the merger returns is
  pairwise separated (in received order).
\<close>

fun separated :: "box list \<Rightarrow> bool" where
  "separated [] \<longleftrightarrow> True"
| "separated (b # bs) \<longleftrightarrow> (\<forall>later \<in> set bs. \<not> too_close later b) \<and> separated bs"

section \<open>Errors\<close>

text \<open>The Python exceptions that the modelled code can raise.\<close>

datatype error = ProgrammingError | KeyError | ValueError | IndexError

section \<open>Attendance store (simple_attendance_system.py, opencv_only_system.py)\<close>

text \<open>
  The table \<^verbatim>\<open>attendance\<close> of \<^verbatim>\<open>attendance.db\<close>. It is created by the
  \<^verbatim>\<open>CREATE TABLE IF NOT EXISTS\<close> inside \<^verbatim>\<open>mark_attendance\<close> and \<^verbatim>\<open>mark_attendance_batch\<close>,
  which declares no constraint on \<open>(student_id, date)\<close>. (\<^verbatim>\<open>database_init.py\<close> declares the
  table with \<^verbatim>\<open>UNIQUE(student_id, date)\<close>, but that module does not parse: in
  \<^verbatim>\<open>initialize_database\<close> the line \<^verbatim>\<open>sqlite3.connect(self.database_path)\<close> is indented one
  column deeper than the line after it, an \<^verbatim>\<open>IndentationError\<close>. So no code of the
  repository creates the table with the constraint.) The columns \<^verbatim>\<open>id\<close> and
  \<^verbatim>\<open>created_at\<close> are filled in by the storage layer and are not part of a row here.
\<close>

text \<open>
  The Python values that the recording paths pass as parameters of the \<^verbatim>\<open>INSERT\<close>: a
  \<^verbatim>\<open>str\<close>, a \<^verbatim>\<open>float\<close>, the \<^verbatim>\<open>datetime.date\<close> of \<^verbatim>\<open>datetime.now().date()\<close> and the
  \<^verbatim>\<open>datetime.time\<close> of \<^verbatim>\<open>datetime.now().time()\<close>. The module \<^verbatim>\<open>sqlite3\<close> binds \<^verbatim>\<open>str\<close> and
  \<^verbatim>\<open>float\<close> as they are and a \<^verbatim>\<open>datetime.date\<close> through its default adapter; it has no
  adapter for \<^verbatim>\<open>datetime.time\<close>, and the code registers none.
\<close>

datatype py_value = PyStr string | PyFloat real | PyDate string | PyTime string

fun bindable :: "py_value \<Rightarrow> bool" where
  "bindable (PyStr _) = True"
| "bindable (PyFloat _) = True"
| "bindable (PyDate _) = True"
| "bindable (PyTime _) = False"

record attendance_row =
  a_student_id :: py_value
  a_date :: py_value
  a_time :: py_value
  a_confidence :: py_value
  a_image_path :: py_value

record attendance_db =
  table_exists :: bool
  table_rows :: "attendance_row list"

definition create_table_if_not_exists :: "attendance_db \<Rightarrow> attendance_db" where
  "create_table_if_not_exists db = db\<lparr>table_exists := True\<rparr>"

text \<open>The tuple of parameters of the \<^verbatim>\<open>INSERT\<close>, in the order of its placeholders.\<close>

definition parameters :: "attendance_row \<Rightarrow> py_value list" where
  "parameters r = [a_student_id r, a_date r, a_time r, a_confidence r, a_image_path r]"

text \<open>
  \<^verbatim>\<open>cursor.execute('INSERT INTO attendance (...) VALUES (?, ?, ?, ?, ?)', parameters)\<close>, on
  the table that the caller has just created. The parameters are bound before the
  statement runs: a parameter of an unsupported type raises \<^verbatim>\<open>sqlite3.ProgrammingError\<close>
  (\<^verbatim>\<open>type 'datetime.time' is not supported\<close>) and no row is added. Otherwise the row is
  appended; nothing in the table rejects a second row for the same \<open>(student_id, date)\<close>.
\<close>

definition insert_row :: "attendance_db \<Rightarrow> attendance_row \<Rightarrow> error + attendance_db" where
  "insert_row db r =
     (if list_all bindable (parameters r)
      then Inr (db\<lparr>table_rows := table_rows db @ [r]\<rparr>)
      else Inl ProgrammingError)"

text \<open>
  \<^verbatim>\<open>SimpleAttendanceSystem.mark_attendance\<close>. The clock readings \<^verbatim>\<open>datetime.now().date()\<close>
  and \<^verbatim>\<open>datetime.now().time()\<close> are the arguments \<open>current_date\<close> and \<open>current_time\<close>; the
  method passes them to the \<^verbatim>\<open>INSERT\<close> as they are, a \<^verbatim>\<open>datetime.date\<close> and a
  \<^verbatim>\<open>datetime.time\<close>. The result is the database after the call and what the call reports:
  \<open>Inr b\<close> for the returned boolean, \<open>Inl e\<close> for an exception that leaves the method. An
  exception of the insert leaves the method before \<^verbatim>\<open>commit\<close>, with the table created;
  the final \<^verbatim>\<open>print\<close> reads \<^verbatim>\<open>self.student_names[student_id]\<close> after the commit.
\<close>

definition mark_attendance ::
  "(string \<times> string) list \<Rightarrow> attendance_db \<Rightarrow> string \<Rightarrow> string \<Rightarrow> string \<Rightarrow> real \<Rightarrow> string
     \<Rightarrow> attendance_db \<times> (error + bool)" where
  "mark_attendance student_names db current_date current_time student_id confidence image_path =
     (if student_id = ''Unknown'' then (db, Inr False)
      else
        let db1 = create_table_if_not_exists db in
        case insert_row db1
               \<lparr>a_student_id = PyStr student_id, a_date = PyDate current_date,
                a_time = PyTime current_time, a_confidence = PyFloat confidence,
                a_image_path = PyStr image_path\<rparr> of
          Inl e \<Rightarrow> (db1, Inl e)
        | Inr db2 \<Rightarrow>
            (case map_of student_names student_id of
               None \<Rightarrow> (db2, Inl KeyError)
             | Some _ \<Rightarrow> (db2, Inr True)))"

text \<open>
  \<^verbatim>\<open>OpenCVAttendanceSystem.mark_attendance_batch\<close>: one insert per result that is not
  \<^verbatim>\<open>'Unknown'\<close>, with the same five parameters, and a single commit after the loop, so an
  exception inside the loop loses the inserts made before it. A result is given by its
  \<^verbatim>\<open>student_id\<close> and \<^verbatim>\<open>confidence\<close>.
\<close>

fun insert_results ::
  "attendance_db \<Rightarrow> string \<Rightarrow> string \<Rightarrow> string \<Rightarrow> (string \<times> real) list \<Rightarrow> error + attendance_db" where
  "insert_results db current_date current_time image_path [] = Inr db"
| "insert_results db current_date current_time image_path ((student_id, confidence) # results) =
     (if student_id \<noteq> ''Unknown'' then
        (case insert_row db
                \<lparr>a_student_id = PyStr student_id, a_date = PyDate current_date,
                 a_time = PyTime current_time, a_confidence = PyFloat confidence,
                 a_image_path = PyStr image_path\<rparr> of
           Inl e \<Rightarrow> Inl e
         | Inr db' \<Rightarrow> insert_results db' current_date current_time image_path results)
      else insert_results db current_date current_time image_path results)"

definition mark_attendance_batch ::
  "attendance_db \<Rightarrow> string \<Rightarrow> string \<Rightarrow> (string \<times> real) list \<Rightarrow> string
     \<Rightarrow> attendance_db \<times> (error + unit)" where
  "mark_attendance_batch db current_date current_time results image_path =
     (let db1 = create_table_if_not_exists db in
      case insert_results db1 current_date current_time image_path results of
        Inl e \<Rightarrow> (db1, Inl e)
      | Inr db2 \<Rightarrow> (db2, Inr ()))"

text \<open>The number of persisted records keyed \<open>(s, d)\<close>.\<close>

definition same_key :: "string \<Rightarrow> string \<Rightarrow> attendance_row \<Rightarrow> bool" where
  "same_key s d r \<longleftrightarrow> a_student_id r = PyStr s \<and> a_date r = PyDate d"

definition records_for :: "attendance_db \<Rightarrow> string \<Rightarrow> string \<Rightarrow> nat" where
  "records_for db s d = length (filter (same_key s d) (table_rows db))"

section \<open>State of the attendance system (smart_attendance_system.py)\<close>

text \<open>
  The value of \<^verbatim>\<open>student_database[student_id]\<close>. The embedding type \<open>'e\<close> is the
  fixed-length vector that the external embedder produces.
\<close>

record 'e student_data =
  sd_name :: string
  sd_encodings :: "'e list"
  sd_registered_date :: string
  sd_image_count :: nat
  sd_total_encodings :: nat

text \<open>
  One file \<^verbatim>\<open>models/precomputed_encodings/<student_id>.json\<close>: either a file that does not
  parse, or the keys of the JSON object (the last three may be absent in a file that
  another tool wrote).
\<close>

datatype 'e artifact =
  Corrupt
  | Artifact (art_name: string) (art_encodings: "'e list") (art_registered_date: "string option")
      (art_image_count: "nat option") (art_total_encodings: "nat option")

text \<open>An image path \<^verbatim>\<open>student_photos/<folder>/<file>\<close>, as the pair of folder and file.\<close>

type_synonym image_path = "string \<times> string"

text \<open>
  The fields of \<^verbatim>\<open>OptimizedAttendanceSystem\<close> that the modelled methods read or write,
  together with the two kinds of file they write: the precomputed encodings (a
  directory, so an association list from the student id to the file) and the pickled
  database. Python dictionaries keep insertion order, hence association lists.
  \<open>encode_log\<close> is not a field of the class: it records every image path handed to
  \<^verbatim>\<open>process_single_image\<close>, so that "no image is encoded" can be stated.
\<close>

record 'e attendance_system =
  face_recognition_tolerance :: real
  min_face_size :: int
  encoding_timeout :: nat
  max_workers :: nat
  student_database :: "(string \<times> 'e student_data) list"
  known_face_encodings :: "'e list"
  known_face_names :: "string list"
  precomputed_encodings :: "(string \<times> 'e artifact) list"
  database_pkl :: "((string \<times> 'e student_data) list \<times> 'e list \<times> string list \<times> string) option"
  encode_log :: "image_path list"

text \<open>The settings and the empty data structures of \<^verbatim>\<open>__init__\<close>, over the files found on disk.\<close>

definition init_system ::
  "(string \<times> 'e artifact) list
     \<Rightarrow> ((string \<times> 'e student_data) list \<times> 'e list \<times> string list \<times> string) option
     \<Rightarrow> 'e attendance_system" where
  "init_system files pkl =
     \<lparr>face_recognition_tolerance = 0.5, min_face_size = 35, encoding_timeout = 8, max_workers = 4,
      student_database = [], known_face_encodings = [], known_face_names = [],
      precomputed_encodings = files, database_pkl = pkl, encode_log = []\<rparr>"

section \<open>Matcher\<close>

subsection \<open>The calls into the face_recognition library\<close>

text \<open>
  The library is not part of the repository. \<^verbatim>\<open>face_distance(known, e)\<close> returns the
  Euclidean distance from \<open>e\<close> to every known encoding; the distance of two embeddings is
  the parameter \<open>distance\<close>. \<^verbatim>\<open>compare_faces(known, e, tolerance)\<close> is, in the library,
  \<^verbatim>\<open>list(face_distance(known, e) <= tolerance)\<close>. \<^verbatim>\<open>np.argmin\<close> returns the first index
  of the least element.
\<close>

definition face_distance :: "('e \<Rightarrow> 'e \<Rightarrow> real) \<Rightarrow> 'e list \<Rightarrow> 'e \<Rightarrow> real list" where
  "face_distance distance face_encodings face_to_compare =
     map (\<lambda>k. distance k face_to_compare) face_encodings"

definition compare_faces :: "('e \<Rightarrow> 'e \<Rightarrow> real) \<Rightarrow> 'e list \<Rightarrow> 'e \<Rightarrow> real \<Rightarrow> bool list" where
  "compare_faces distance known_encodings face_encoding_to_check tolerance =
     map (\<lambda>d. d \<le> tolerance) (face_distance distance known_encodings face_encoding_to_check)"

definition argmin :: "real list \<Rightarrow> nat" where
  "argmin ds = arg_min_list (\<lambda>i. ds ! i) [0..<length ds]"

subsection \<open>recognize_faces_in_image (flask_api.py)\<close>

record recognized_student =
  rs_student_id :: string
  rs_student_name :: string
  rs_confidence :: real
  rs_face_location :: box

text \<open>The three variables that the loop over the face encodings updates.\<close>

record recognition_state =
  recognized_students :: "recognized_student list"
  unknown_faces :: nat
  recognized_student_ids :: "string set"

definition initial_recognition_state :: recognition_state where
  "initial_recognition_state =
     \<lparr>recognized_students = [], unknown_faces = 0, recognized_student_ids = {}\<rparr>"

text \<open>The branch of the loop body that a face takes.\<close>

datatype face_branch =
  Recognized | LowConfidence | AlreadyRecognized | BestNotMatched | NoMatch

text \<open>\<^verbatim>\<open>student_database.get(student_id, {}).get('name', 'Unknown')\<close>.\<close>

definition student_name_of :: "(string \<times> 'e student_data) list \<Rightarrow> string \<Rightarrow> string" where
  "student_name_of db student_id =
     (case map_of db student_id of None \<Rightarrow> ''Unknown'' | Some info \<Rightarrow> sd_name info)"

text \<open>
  The body of \<^verbatim>\<open>for i, face_encoding in enumerate(face_encodings)\<close>, for the face at
  \<open>face_loc\<close> with encoding \<open>face_encoding\<close>. It returns the updated variables and the
  branch taken. Reading \<^verbatim>\<open>known_face_names[best_match_index]\<close> beyond the end of the list
  raises \<^verbatim>\<open>IndexError\<close>.
\<close>

definition recognize_face ::
  "('e \<Rightarrow> 'e \<Rightarrow> real) \<Rightarrow> 'e attendance_system \<Rightarrow> recognition_state \<Rightarrow> box \<times> 'e
     \<Rightarrow> error + recognition_state \<times> face_branch" where
  "recognize_face distance sys st face =
     (case face of (face_loc, face_encoding) \<Rightarrow>
      let matches = compare_faces distance (known_face_encodings sys) face_encoding
                      (face_recognition_tolerance sys) in
      if True \<in> set matches then
        let face_distances = face_distance distance (known_face_encodings sys) face_encoding;
            best_match_index = argmin face_distances in
        if matches ! best_match_index then
          if best_match_index < length (known_face_names sys) then
            let student_id = known_face_names sys ! best_match_index in
            if student_id \<notin> recognized_student_ids st then
              let confidence = 1 - face_distances ! best_match_index in
              if confidence > 0.35 then
                Inr (st\<lparr>recognized_students := recognized_students st @
                            [\<lparr>rs_student_id = student_id,
                              rs_student_name = student_name_of (student_database sys) student_id,
                              rs_confidence = confidence,
                              rs_face_location = face_loc\<rparr>],
                         recognized_student_ids := insert student_id (recognized_student_ids st)\<rparr>,
                     Recognized)
              else Inr (st\<lparr>unknown_faces := unknown_faces st + 1\<rparr>, LowConfidence)
            else Inr (st, AlreadyRecognized)
          else Inl IndexError
        else Inr (st\<lparr>unknown_faces := unknown_faces st + 1\<rparr>, BestNotMatched)
      else Inr (st\<lparr>unknown_faces := unknown_faces st + 1\<rparr>, NoMatch))"

fun recognize_loop ::
  "('e \<Rightarrow> 'e \<Rightarrow> real) \<Rightarrow> 'e attendance_system \<Rightarrow> recognition_state \<Rightarrow> (box \<times> 'e) list
     \<Rightarrow> error + recognition_state" where
  "recognize_loop distance sys st [] = Inr st"
| "recognize_loop distance sys st (face # faces) =
     (case recognize_face distance sys st face of
        Inl e \<Rightarrow> Inl e
      | Inr (st', branch) \<Rightarrow> recognize_loop distance sys st' faces)"

text \<open>
  The response of \<^verbatim>\<open>recognize_faces_in_image\<close>, from the detected faces (each location
  with the encoding that \<^verbatim>\<open>face_encodings\<close> returns for it) on. An exception inside the
  \<^verbatim>\<open>try\<close> block gives the error response.
\<close>

datatype response =
  NoFacesDetected
  | RecognitionResult (resp_recognized: "recognized_student list") (resp_total_faces: nat)
      (resp_recognized_count: nat) (resp_unknown_faces: nat) (resp_timestamp: string)
  | ErrorResponse error

definition recognize_faces_in_image ::
  "('e \<Rightarrow> 'e \<Rightarrow> real) \<Rightarrow> 'e attendance_system \<Rightarrow> string \<Rightarrow> (box \<times> 'e) list \<Rightarrow> response" where
  "recognize_faces_in_image distance sys now faces =
     (if faces = [] then NoFacesDetected
      else
        case recognize_loop distance sys initial_recognition_state faces of
          Inl e \<Rightarrow> ErrorResponse e
        | Inr st \<Rightarrow>
            RecognitionResult (recognized_students st) (length faces)
              (length (recognized_students st)) (unknown_faces st) now)"

subsection \<open>detect_faces_in_image (simple_attendance_system.py)\<close>

text \<open>
  The two dictionaries that \<^verbatim>\<open>load_encodings\<close> fills, in the order of the JSON file.
\<close>

record 'e simple_system =
  student_encodings :: "(string \<times> 'e list) list"
  student_names :: "(string \<times> string) list"

record match_result =
  mr_student_id :: string
  mr_name :: string
  mr_confidence :: real
  mr_face_location :: box

text \<open>Python's \<^verbatim>\<open>min\<close> raises \<^verbatim>\<open>ValueError\<close> on an empty sequence.\<close>

definition py_min :: "real list \<Rightarrow> error + real" where
  "py_min ds = (case ds of [] \<Rightarrow> Inl ValueError | d # rest \<Rightarrow> Inr (fold min rest d))"

text \<open>The loop over \<^verbatim>\<open>self.student_encodings.items()\<close> for one face encoding.\<close>

fun best_match_loop ::
  "('e \<Rightarrow> 'e \<Rightarrow> real) \<Rightarrow> 'e \<Rightarrow> string option \<Rightarrow> real \<Rightarrow> (string \<times> 'e list) list
     \<Rightarrow> error + string option \<times> real" where
  "best_match_loop distance face_encoding best_match best_distance [] =
     Inr (best_match, best_distance)"
| "best_match_loop distance face_encoding best_match best_distance ((student_id, encs) # rest) =
     (case py_min (face_distance distance encs face_encoding) of
        Inl err \<Rightarrow> Inl err
      | Inr min_distance \<Rightarrow>
          if min_distance < best_distance
          then best_match_loop distance face_encoding (Some student_id) min_distance rest
          else best_match_loop distance face_encoding best_match best_distance rest)"

definition unknown_result :: "box \<Rightarrow> match_result" where
  "unknown_result loc =
     \<lparr>mr_student_id = ''Unknown'', mr_name = ''Unknown'', mr_confidence = 0.0,
      mr_face_location = loc\<rparr>"

text \<open>
  The body of the loop over the face encodings. \<^verbatim>\<open>best_match\<close> starts as \<^verbatim>\<open>None\<close> and
  \<^verbatim>\<open>best_distance\<close> as \<open>1.0\<close>; the test \<^verbatim>\<open>if best_match and best_distance < 0.6\<close> is
  false for \<^verbatim>\<open>None\<close> and for the empty string. \<^verbatim>\<open>self.student_names[best_match]\<close> raises
  \<^verbatim>\<open>KeyError\<close> for a student without a name.
\<close>

definition match_face ::
  "('e \<Rightarrow> 'e \<Rightarrow> real) \<Rightarrow> 'e simple_system \<Rightarrow> box \<times> 'e \<Rightarrow> error + match_result" where
  "match_face distance sys face =
     (case face of (loc, face_encoding) \<Rightarrow>
      case best_match_loop distance face_encoding None 1.0 (student_encodings sys) of
        Inl err \<Rightarrow> Inl err
      | Inr (best_match, best_distance) \<Rightarrow>
          (case best_match of
             None \<Rightarrow> Inr (unknown_result loc)
           | Some student_id \<Rightarrow>
               if student_id \<noteq> [] \<and> best_distance < 0.6 then
                 (case map_of (student_names sys) student_id of
                    None \<Rightarrow> Inl KeyError
                  | Some student_name \<Rightarrow>
                      Inr \<lparr>mr_student_id = student_id, mr_name = student_name,
                           mr_confidence = 1 - best_distance, mr_face_location = loc\<rparr>)
               else Inr (unknown_result loc)))"

fun match_faces ::
  "('e \<Rightarrow> 'e \<Rightarrow> real) \<Rightarrow> 'e simple_system \<Rightarrow> (box \<times> 'e) list \<Rightarrow> error + match_result list" where
  "match_faces distance sys [] = Inr []"
| "match_faces distance sys (face # faces) =
     (case match_face distance sys face of
        Inl err \<Rightarrow> Inl err
      | Inr result \<Rightarrow>
          (case match_faces distance sys faces of
             Inl err \<Rightarrow> Inl err
           | Inr results \<Rightarrow> Inr (result # results)))"

definition detect_faces_in_image ::
  "('e \<Rightarrow> 'e \<Rightarrow> real) \<Rightarrow> 'e simple_system \<Rightarrow> (box \<times> 'e) list \<Rightarrow> error + match_result list" where
  "detect_faces_in_image distance sys faces =
     (if faces = [] then Inr [] else match_faces distance sys faces)"


text \<open>
  The identifiers in \<^verbatim>\<open>recognized_students\<close> are pairwise different and are exactly
  the set \<^verbatim>\<open>recognized_student_ids\<close>.
\<close>

definition ids_consistent :: "recognition_state \<Rightarrow> bool" where
  "ids_consistent st \<longleftrightarrow> distinct (map rs_student_id (recognized_students st)) \<and>
     set (map rs_student_id (recognized_students st)) = recognized_student_ids st"


section \<open>Notions used in the statements\<close>

text \<open>The nearest-neighbour distance of a face encoding to a non-empty gallery.\<close>

definition nearest_distance :: "('e \<Rightarrow> 'e \<Rightarrow> real) \<Rightarrow> 'e list \<Rightarrow> 'e \<Rightarrow> real" where
  "nearest_distance distance gallery e = Min (set (face_distance distance gallery e))"


text \<open>
  Example data: one-dimensional embeddings (the Euclidean distance of two reals is the
  absolute difference) and a gallery with the single student \<open>S1\<close>.
\<close>

definition abs_distance :: "real \<Rightarrow> real \<Rightarrow> real" where
  "abs_distance a b = \<bar>a - b\<bar>"

definition one_student_system :: "real attendance_system" where
  "one_student_system =
     (init_system [] None)
       \<lparr>student_database :=
          [(''S1'', \<lparr>sd_name = ''Alice'', sd_encodings = [0], sd_registered_date = ''2024-01-01'',
                     sd_image_count = 1, sd_total_encodings = 1\<rparr>)],
        known_face_encodings := [0], known_face_names := [''S1'']\<rparr>"

definition one_student_simple :: "real simple_system" where
  "one_student_simple =
     \<lparr>student_encodings = [(''S1'', [0])], student_names = [(''S1'', ''Alice'')]\<rparr>"

section \<open>Registration pipeline (smart_attendance_system.py)\<close>

subsection \<open>Python string methods\<close>

text \<open>
  \<^verbatim>\<open>str.startswith\<close>, \<^verbatim>\<open>str.upper\<close>, \<^verbatim>\<open>str.replace('_', ' ')\<close> and \<^verbatim>\<open>str.title\<close> on ASCII
  strings (folder names).
\<close>

definition startswith :: "string \<Rightarrow> string \<Rightarrow> bool" where
  "startswith s p \<longleftrightarrow> take (length p) s = p"

definition is_lower :: "char \<Rightarrow> bool" where
  "is_lower c \<longleftrightarrow> 97 \<le> (of_char c :: nat) \<and> (of_char c :: nat) \<le> 122"

definition is_upper :: "char \<Rightarrow> bool" where
  "is_upper c \<longleftrightarrow> 65 \<le> (of_char c :: nat) \<and> (of_char c :: nat) \<le> 90"

definition upper_char :: "char \<Rightarrow> char" where
  "upper_char c = (if is_lower c then char_of (of_char c - (32 :: nat)) else c)"

definition lower_char :: "char \<Rightarrow> char" where
  "lower_char c = (if is_upper c then char_of (of_char c + (32 :: nat)) else c)"

definition upper :: "string \<Rightarrow> string" where
  "upper s = map upper_char s"

definition replace_underscores :: "string \<Rightarrow> string" where
  "replace_underscores s = map (\<lambda>c. if c = CHR ''_'' then CHR '' '' else c) s"

fun title_from :: "bool \<Rightarrow> string \<Rightarrow> string" where
  "title_from previous_cased [] = []"
| "title_from previous_cased (c # cs) =
     (if is_lower c then (if previous_cased then c else upper_char c) # title_from True cs
      else if is_upper c then (if previous_cased then lower_char c else c) # title_from True cs
      else c # title_from False cs)"

definition title :: "string \<Rightarrow> string" where
  "title s = title_from False s"

subsection \<open>Collaborators\<close>

text \<open>
  A call into a collaborator (image decoding, a face detector, the embedder) returns a
  value, raises an exception, or blocks and never returns.
\<close>

datatype 'a call = Done 'a | Raise | Block

text \<open>
  What the pipeline consults outside of the object: the file system under
  \<^verbatim>\<open>student_photos\<close> (\<open>listdir\<close> gives each entry with its \<^verbatim>\<open>isdir\<close> flag, \<open>images_in\<close> the
  sorted image files that \<^verbatim>\<open>get_student_images\<close> finds in a folder), whether a file can be
  written, the outcomes of the perception calls on an image, and the order in which
  \<^verbatim>\<open>as_completed\<close> yields the futures of the submitted images.
\<close>

record 'e world =
  photos_dir_exists :: bool
  listdir :: "(string \<times> bool) list"
  images_in :: "string \<Rightarrow> string list"
  path_exists :: "image_path \<Rightarrow> bool"
  can_write :: "string \<Rightarrow> bool"
  preprocess :: "image_path \<Rightarrow> unit call"
  hog_faces :: "image_path \<Rightarrow> box list call"
  haar_faces :: "image_path \<Rightarrow> (int \<times> int \<times> int \<times> int) list call"
  encode_faces :: "image_path \<Rightarrow> box list \<Rightarrow> 'e list call"
  as_completed :: "image_path list \<Rightarrow> image_path list"

subsection \<open>One image\<close>

text \<open>
  \<^verbatim>\<open>fast_face_detection\<close>: each detector runs inside its own \<^verbatim>\<open>try\<close>, so an exception
  only loses that detector's boxes. The Haar cascade returns \<open>(x, y, width, height)\<close>;
  \<open>img\<close> is the image, named by its path.
\<close>

definition detected :: "'a list call \<Rightarrow> 'a list" where
  "detected r = (case r of Done faces \<Rightarrow> faces | Raise \<Rightarrow> [] | Block \<Rightarrow> [])"

definition fast_face_detection :: "'e world \<Rightarrow> int \<Rightarrow> image_path \<Rightarrow> box list call" where
  "fast_face_detection w min_size img =
     (if hog_faces w img = Block \<or> haar_faces w img = Block then Block
      else
        let all_faces = detected (hog_faces w img)
              @ map (\<lambda>(x, y, width, height). (y, x + width, y + height, x))
                  (detected (haar_faces w img))
        in if all_faces \<noteq> []
           then Done (filter_and_validate_faces min_size (remove_duplicate_faces all_faces))
           else Done [])"

text \<open>
  \<^verbatim>\<open>process_single_image\<close>: every exception inside is caught and gives \<^verbatim>\<open>None\<close>. No call
  in it takes a timeout.
\<close>

definition process_single_image :: "'e world \<Rightarrow> int \<Rightarrow> image_path \<Rightarrow> 'e option call" where
  "process_single_image w min_size image_path =
     (if \<not> path_exists w image_path then Done None
      else
        case preprocess w image_path of
          Block \<Rightarrow> Block
        | Raise \<Rightarrow> Done None
        | Done _ \<Rightarrow>
            (case fast_face_detection w min_size image_path of
               Block \<Rightarrow> Block
             | Raise \<Rightarrow> Done None
             | Done face_locations \<Rightarrow>
                 if face_locations = [] then Done None
                 else
                   (case encode_faces w image_path face_locations of
                      Block \<Rightarrow> Block
                    | Raise \<Rightarrow> Done None
                    | Done face_encodings \<Rightarrow>
                        (case face_encodings of
                           [] \<Rightarrow> Done None
                         | encoding # _ \<Rightarrow> Done (Some encoding)))))"

subsection \<open>One student\<close>

text \<open>
  \<^verbatim>\<open>save_precomputed_encoding\<close> writes \<^verbatim>\<open><student_id>.json\<close>; an exception while writing
  is logged and the method returns.
\<close>

definition save_precomputed_encoding ::
  "'e world \<Rightarrow> 'e attendance_system \<Rightarrow> string \<Rightarrow> 'e student_data \<Rightarrow> 'e attendance_system" where
  "save_precomputed_encoding w sys student_id encoding_data =
     (if can_write w (student_id @ ''.json'') then
        sys\<lparr>precomputed_encodings :=
              AList.update student_id
                (Artifact (sd_name encoding_data) (sd_encodings encoding_data)
                   (Some (sd_registered_date encoding_data)) (Some (sd_image_count encoding_data))
                   (Some (sd_total_encodings encoding_data)))
                (precomputed_encodings sys)\<rparr>
      else sys)"

text \<open>
  The value that the loop over the completed futures appends to \<^verbatim>\<open>all_encodings\<close>:
  nothing for \<^verbatim>\<open>None\<close> and nothing for a future whose \<^verbatim>\<open>result()\<close> raises.
\<close>

definition encoding_of :: "'e option call \<Rightarrow> 'e option" where
  "encoding_of r = (case r of Done encoding \<Rightarrow> encoding | Raise \<Rightarrow> None | Block \<Rightarrow> None)"

text \<open>
  \<^verbatim>\<open>register_student\<close>. All images are submitted to the pool; \<^verbatim>\<open>as_completed\<close> is called
  without a timeout and \<^verbatim>\<open>future.result()\<close> likewise, and leaving the \<^verbatim>\<open>with\<close> block waits
  for every task: when a task blocks, the method does not return (\<open>None\<close>). Otherwise
  it returns the new state and its boolean. It reads neither \<^verbatim>\<open>encoding_timeout\<close> nor any
  other time limit. \<open>now\<close> is the reading of the clock.
\<close>

definition register_student ::
  "'e world \<Rightarrow> string \<Rightarrow> 'e attendance_system \<Rightarrow> string \<Rightarrow> string \<Rightarrow> image_path list
     \<Rightarrow> ('e attendance_system \<times> bool) option" where
  "register_student w now sys student_id student_name image_paths =
     (let outcomes = map (process_single_image w (min_face_size sys)) (as_completed w image_paths);
          sys1 = sys\<lparr>encode_log := encode_log sys @ image_paths\<rparr>
      in if Block \<in> set outcomes then None
         else
           let all_encodings = List.map_filter encoding_of outcomes;
               successful_images = length all_encodings
           in if all_encodings = [] then Some (sys1, False)
              else
                let student_data =
                      \<lparr>sd_name = student_name, sd_encodings = all_encodings,
                       sd_registered_date = now, sd_image_count = successful_images,
                       sd_total_encodings = length all_encodings\<rparr>;
                    sys2 = sys1
                      \<lparr>student_database :=
                         AList.update student_id student_data (student_database sys1),
                       known_face_encodings := known_face_encodings sys1 @ all_encodings,
                       known_face_names :=
                         known_face_names sys1 @ replicate (length all_encodings) student_id\<rparr>
                in Some (save_precomputed_encoding w sys2 student_id student_data, True))"

subsection \<open>The batch\<close>

text \<open>The entry of \<^verbatim>\<open>results['details']\<close> for one folder, in its three shapes.\<close>

datatype detail =
  FromPrecomputed (d_student_id: string) (d_student_name: string)
  | Failed (d_message: string) (d_images: nat)
  | Registered (d_student_id: string) (d_student_name: string) (d_images: nat) (d_encodings: nat)

fun detail_success :: "detail \<Rightarrow> bool" where
  "detail_success (FromPrecomputed _ _) = True"
| "detail_success (Failed _ _) = False"
| "detail_success (Registered _ _ _ _) = True"

record batch_results =
  total_students :: nat
  successful :: nat
  failed :: nat
  details :: "(string \<times> detail) list"

text \<open>The early returns \<^verbatim>\<open>{'success': False, 'message': ...}\<close>, or the results.\<close>

datatype batch_outcome = Unavailable string | Results batch_results

definition student_folders :: "'e world \<Rightarrow> string list" where
  "student_folders w =
     map fst (filter (\<lambda>(f, is_dir). is_dir \<and> \<not> startswith f ''.'') (listdir w))"

definition get_student_images :: "'e world \<Rightarrow> string \<Rightarrow> image_path list" where
  "get_student_images w student_folder = map (Pair student_folder) (images_in w student_folder)"

text \<open>The \<^verbatim>\<open>*.json\<close> files whose name does not start with \<^verbatim>\<open>STUDENT_\<close>.\<close>

definition existing_encodings :: "'e attendance_system \<Rightarrow> string list" where
  "existing_encodings sys =
     filter (\<lambda>f. \<not> startswith f ''STUDENT_'') (map fst (precomputed_encodings sys))"

text \<open>\<^verbatim>\<open>os.path.exists(encoding_file)\<close> for the file of a student id.\<close>

definition has_encoding :: "'e attendance_system \<Rightarrow> string \<Rightarrow> bool" where
  "has_encoding sys student_id \<longleftrightarrow> map_of (precomputed_encodings sys) student_id \<noteq> None"

definition add_success :: "string \<Rightarrow> detail \<Rightarrow> batch_results \<Rightarrow> batch_results" where
  "add_success folder_name d results =
     results\<lparr>successful := successful results + 1,
             details := AList.update folder_name d (details results)\<rparr>"

definition add_failure :: "string \<Rightarrow> detail \<Rightarrow> batch_results \<Rightarrow> batch_results" where
  "add_failure folder_name d results =
     results\<lparr>failed := failed results + 1,
             details := AList.update folder_name d (details results)\<rparr>"

definition from_existing :: "string \<Rightarrow> detail" where
  "from_existing folder_name =
     FromPrecomputed (upper folder_name) (title (replace_underscores folder_name))"

text \<open>The body of the loop of the branch "enough existing encodings".\<close>

definition use_existing :: "'e attendance_system \<Rightarrow> string \<Rightarrow> batch_results \<Rightarrow> batch_results" where
  "use_existing sys folder_name results =
     (if has_encoding sys (upper folder_name)
      then add_success folder_name (from_existing folder_name) results
      else add_failure folder_name (Failed ''No existing encoding found'' 0) results)"

text \<open>The first loop of the other branch: it fills \<^verbatim>\<open>students_to_process\<close>.\<close>

fun split_students ::
  "'e attendance_system \<Rightarrow> batch_results \<Rightarrow> string list \<Rightarrow> string list
     \<Rightarrow> batch_results \<times> string list" where
  "split_students sys results students_to_process [] = (results, students_to_process)"
| "split_students sys results students_to_process (folder_name # folders) =
     (if has_encoding sys (upper folder_name)
      then split_students sys (add_success folder_name (from_existing folder_name) results)
             students_to_process folders
      else split_students sys results (students_to_process @ [folder_name]) folders)"

text \<open>
  The second loop, over \<^verbatim>\<open>students_to_process\<close>: \<open>process_student\<close> is its body and
  registers one student that has no encoding file. After a successful registration
  \<^verbatim>\<open>student_database[student_id]\<close> exists; the count of its encodings is read from there.
  A registration that does not return stops the loop there.
\<close>

definition stored_encodings :: "'e attendance_system \<Rightarrow> string \<Rightarrow> nat" where
  "stored_encodings sys student_id =
     (case map_of (student_database sys) student_id of
        None \<Rightarrow> 0
      | Some student \<Rightarrow> length (sd_encodings student))"

definition process_student ::
  "'e world \<Rightarrow> string \<Rightarrow> 'e attendance_system \<Rightarrow> batch_results \<Rightarrow> string
     \<Rightarrow> ('e attendance_system \<times> batch_results) option" where
  "process_student w now sys results folder_name =
     (let image_paths = get_student_images w folder_name in
      if image_paths = [] then
        Some (sys, add_failure folder_name (Failed ''No images found'' 0) results)
      else
        let student_id = upper folder_name;
            student_name = title (replace_underscores folder_name)
        in case register_student w now sys student_id student_name image_paths of
             None \<Rightarrow> None
           | Some (sys', success) \<Rightarrow>
               if success then
                 Some (sys',
                       add_success folder_name
                         (Registered student_id student_name (length image_paths)
                            (stored_encodings sys' student_id)) results)
               else
                 Some (sys',
                       add_failure folder_name
                         (Failed ''Registration failed'' (length image_paths)) results))"

fun process_students ::
  "'e world \<Rightarrow> string \<Rightarrow> 'e attendance_system \<Rightarrow> batch_results \<Rightarrow> string list
     \<Rightarrow> ('e attendance_system \<times> batch_results) option" where
  "process_students w now sys results [] = Some (sys, results)"
| "process_students w now sys results (folder_name # folders) =
     (case process_student w now sys results folder_name of
        None \<Rightarrow> None
      | Some (sys', results') \<Rightarrow> process_students w now sys' results' folders)"

definition save_student_database ::
  "'e world \<Rightarrow> string \<Rightarrow> 'e attendance_system \<Rightarrow> 'e attendance_system" where
  "save_student_database w now sys =
     (if can_write w ''student_database.pkl'' then
        sys\<lparr>database_pkl :=
              Some (student_database sys, known_face_encodings sys, known_face_names sys, now)\<rparr>
      else sys)"

definition batch_register_from_folders ::
  "'e world \<Rightarrow> string \<Rightarrow> 'e attendance_system \<Rightarrow> ('e attendance_system \<times> batch_outcome) option" where
  "batch_register_from_folders w now sys =
     (if \<not> photos_dir_exists w then
        Some (sys, Unavailable ''Student photos directory not found'')
      else if student_folders w = [] then
        Some (sys, Unavailable ''No student folders found in student_photos directory'')
      else
        let results = \<lparr>total_students = length (student_folders w), successful = 0, failed = 0,
                       details = []\<rparr>
        in if length (existing_encodings sys) \<ge> length (student_folders w) then
             Some (sys, Results (fold (use_existing sys) (student_folders w) results))
           else
             case split_students sys results [] (student_folders w) of
               (results1, students_to_process) \<Rightarrow>
                 (case process_students w now sys results1 students_to_process of
                    None \<Rightarrow> None
                  | Some (sys', results2) \<Rightarrow>
                      Some (save_student_database w now sys', Results results2)))"

subsection \<open>Loading the gallery\<close>

text \<open>
  The body of the loop of \<^verbatim>\<open>load_precomputed_encodings\<close> over the encoding files, with the
  count of loaded students. A file that does not parse is logged and skipped.
\<close>

definition load_encoding_file ::
  "string \<Rightarrow> string \<times> 'e artifact \<Rightarrow> 'e attendance_system \<times> nat \<Rightarrow> 'e attendance_system \<times> nat" where
  "load_encoding_file now encoding_file acc =
     (case encoding_file of (student_id, content) \<Rightarrow>
      case acc of (sys, loaded_count) \<Rightarrow>
        if startswith student_id ''STUDENT_'' then (sys, loaded_count)
        else
          case content of
            Corrupt \<Rightarrow> (sys, loaded_count)
          | Artifact student_name encodings registered image_count total_count \<Rightarrow>
              if map_of (student_database sys) student_id = None then
                (sys\<lparr>student_database :=
                       AList.update student_id
                         \<lparr>sd_name = student_name, sd_encodings = encodings,
                          sd_registered_date = (case registered of Some d \<Rightarrow> d | None \<Rightarrow> now),
                          sd_image_count =
                            (case image_count of Some n \<Rightarrow> n | None \<Rightarrow> length encodings),
                          sd_total_encodings = length encodings\<rparr>
                         (student_database sys),
                     known_face_encodings := known_face_encodings sys @ encodings,
                     known_face_names :=
                       known_face_names sys @ replicate (length encodings) student_id\<rparr>,
                 loaded_count + 1)
              else (sys, loaded_count))"

definition load_precomputed_encodings ::
  "string \<Rightarrow> 'e attendance_system \<Rightarrow> 'e attendance_system \<times> bool" where
  "load_precomputed_encodings now sys =
     (if precomputed_encodings sys = [] then (sys, False)
      else
        case fold (load_encoding_file now) (precomputed_encodings sys) (sys, 0) of
          (sys', loaded_count) \<Rightarrow> (sys', loaded_count > 0))"

text \<open>
  \<^verbatim>\<open>load_student_database\<close>: it clears the three structures, loads the files, and
  registers from the folders when nothing was loaded.
\<close>

definition load_student_database ::
  "'e world \<Rightarrow> string \<Rightarrow> 'e attendance_system \<Rightarrow> 'e attendance_system option" where
  "load_student_database w now sys =
     (case load_precomputed_encodings now
             (sys\<lparr>student_database := [], known_face_encodings := [], known_face_names := []\<rparr>) of
        (sys1, success) \<Rightarrow>
          if success then Some sys1
          else
            (case batch_register_from_folders w now sys1 of
               None \<Rightarrow> None
             | Some (sys2, outcome) \<Rightarrow> Some sys2))"

text \<open>
  The flattened lookup lists against the per-student map: the pairs of
  \<^verbatim>\<open>known_face_encodings\<close> and \<^verbatim>\<open>known_face_names\<close> are the embeddings of the map, each with
  its student id, in the order of the map.
\<close>

definition flattened :: "(string \<times> 'e student_data) list \<Rightarrow> ('e \<times> string) list" where
  "flattened db = concat (map (\<lambda>(sid, student). map (\<lambda>e. (e, sid)) (sd_encodings student)) db)"

definition gallery_consistent :: "'e attendance_system \<Rightarrow> bool" where
  "gallery_consistent sys \<longleftrightarrow>
     length (known_face_encodings sys) = length (known_face_names sys)
     \<and> zip (known_face_encodings sys) (known_face_names sys) = flattened (student_database sys)"

text \<open>
  At least one image of the list yields an embedding; no image of the list blocks.
\<close>

definition produces_encoding :: "'e world \<Rightarrow> int \<Rightarrow> image_path list \<Rightarrow> bool" where
  "produces_encoding w min_size image_paths \<longleftrightarrow>
     list_ex (\<lambda>p. encoding_of (process_single_image w min_size p) \<noteq> None) image_paths"

definition none_blocks :: "'e world \<Rightarrow> int \<Rightarrow> image_path list \<Rightarrow> bool" where
  "none_blocks w min_size image_paths \<longleftrightarrow>
     list_all (\<lambda>p. process_single_image w min_size p \<noteq> Block) image_paths"

text \<open>
  Example data for the registration pipeline: three student folders with one image each.
  The image of \<open>bob\<close> shows no face; an image named \<open>slow.jpg\<close> never leaves the embedder.
  \<open>registered_alice\<close> is a system that finds an encoding file for \<open>ALICE\<close> on disk, and
  \<open>slow_world\<close> puts \<open>slow.jpg\<close> into the folder of \<open>alice\<close>.
\<close>

definition example_world :: "real world" where
  "example_world =
     \<lparr>photos_dir_exists = True,
      listdir = [(''alice'', True), (''bob'', True), (''carol'', True), (''notes.txt'', False)],
      images_in = (\<lambda>folder. if folder = ''alice'' then [''a.jpg'']
                     else if folder = ''bob'' then [''noface.jpg'']
                     else if folder = ''carol'' then [''c.jpg''] else []),
      path_exists = (\<lambda>p. True),
      can_write = (\<lambda>f. True),
      preprocess = (\<lambda>p. Done ()),
      hog_faces = (\<lambda>p. if snd p = ''noface.jpg'' then Done [] else Done [(0, 50, 50, 0)]),
      haar_faces = (\<lambda>p. Done []),
      encode_faces = (\<lambda>p boxes. if snd p = ''a.jpg'' then Done [1]
                        else if snd p = ''a2.jpg'' then Done [2]
                        else if snd p = ''c.jpg'' then Done [3]
                        else if snd p = ''slow.jpg'' then Block else Done []),
      as_completed = (\<lambda>paths. paths)\<rparr>"

definition registered_alice :: "real attendance_system" where
  "registered_alice =
     init_system [(''ALICE'', Artifact ''Alice'' [1] (Some ''2024-01-01T08:00:00'') (Some 1) (Some 1))]
       None"



definition slow_world :: "real world" where
  "slow_world =
     example_world
       \<lparr>images_in := (\<lambda>folder. if folder = ''alice'' then [''slow.jpg'', ''a.jpg'']
                         else images_in example_world folder)\<rparr>"


section \<open>Properties of the detection merger\<close>

text \<open>The comparison of the source, decided in integer arithmetic.\<close>

lemma sqrt_less_half_iff:
  assumes "0 \<le> n"
  shows "sqrt (real_of_int n) < real_of_int m * 0.5 \<longleftrightarrow> 0 < m \<and> 4 * n < m\<^sup>2"
proof (cases "0 < m")
  case False
  then have "real_of_int m * 0.5 \<le> 0" by simp
  moreover have "0 \<le> sqrt (real_of_int n)" using assms by simp
  ultimately show ?thesis using False by linarith
next
  case True
  then have pos: "0 \<le> real_of_int m * 0.5" by simp
  have "sqrt (real_of_int n) < real_of_int m * 0.5
          \<longleftrightarrow> real_of_int n < (real_of_int m * 0.5)\<^sup>2"
    using real_less_lsqrt [of "real_of_int n" "real_of_int m * 0.5"] pos assms
    by (metis of_int_0_le_iff real_sqrt_less_iff real_sqrt_abs abs_of_nonneg)
  also have "\<dots> \<longleftrightarrow> real_of_int (4 * n) < real_of_int (m\<^sup>2)"
    by (simp add: power2_eq_square field_simps)
  also have "\<dots> \<longleftrightarrow> 4 * n < m\<^sup>2"
    by (simp only: of_int_less_iff)
  finally show ?thesis using True by simp
qed

lemma too_close_code:
  "too_close face existing_face \<longleftrightarrow>
     (case face_center face of (cx, cy) \<Rightarrow>
      case face_center existing_face of (ex, ey) \<Rightarrow>
        0 < min (face_size face) (face_size existing_face)
        \<and> 4 * ((cx - ex)\<^sup>2 + (cy - ey)\<^sup>2) < (min (face_size face) (face_size existing_face))\<^sup>2)"
proof -
  obtain cx cy where c: "face_center face = (cx, cy)" by (cases "face_center face")
  obtain ex ey where e: "face_center existing_face = (ex, ey)"
    by (cases "face_center existing_face")
  have "0 \<le> (cx - ex)\<^sup>2 + (cy - ey)\<^sup>2" by simp
  from sqrt_less_half_iff [OF this, of "min (face_size face) (face_size existing_face)"]
  show ?thesis
    unfolding too_close_def center_distance_def c e prod.case by (simp only: distrib_left)
qed

lemma dedup_loop_append:
  "dedup_loop unique_faces (xs @ ys) = dedup_loop (dedup_loop unique_faces xs) ys"
  by (induction xs arbitrary: unique_faces) auto

lemma dedup_loop_prefix: "\<exists>kept. dedup_loop unique_faces xs = unique_faces @ kept \<and> set kept \<subseteq> set xs"
proof (induction xs arbitrary: unique_faces)
  case Nil
  then show ?case by simp
next
  case (Cons face rest)
  show ?case
  proof (cases "is_duplicate face unique_faces")
    case True
    with Cons.IH [of unique_faces] show ?thesis by auto
  next
    case False
    from Cons.IH [of "unique_faces @ [face]"] obtain kept where
      "dedup_loop (unique_faces @ [face]) rest = (unique_faces @ [face]) @ kept" "set kept \<subseteq> set rest"
      by blast
    with False show ?thesis by (intro exI [of _ "face # kept"]) auto
  qed
qed

lemma separated_snoc:
  "separated (bs @ [face]) \<longleftrightarrow> separated bs \<and> (\<forall>b \<in> set bs. \<not> too_close face b)"
  by (induction bs) auto

lemma dedup_loop_separated:
  "separated unique_faces \<Longrightarrow> separated (dedup_loop unique_faces xs)"
proof (induction xs arbitrary: unique_faces)
  case Nil
  then show ?case by simp
next
  case (Cons face rest)
  then show ?case
    by (auto simp: separated_snoc is_duplicate_def list_ex_iff)
qed

lemma remove_duplicate_faces_separated: "separated (remove_duplicate_faces face_locations)"
proof (cases "length face_locations \<le> 1")
  case True
  then have "face_locations = [] \<or> (\<exists>b. face_locations = [b])"
    by (cases face_locations) auto
  with True show ?thesis by (auto simp: remove_duplicate_faces_def)
next
  case False
  have "separated (dedup_loop [] face_locations)"
    by (rule dedup_loop_separated) simp
  with False show ?thesis by (simp add: remove_duplicate_faces_def)
qed





section \<open>Recording attendance twice\<close>

text \<open>
  Both recording paths bind the \<^verbatim>\<open>datetime.time\<close> of the clock to the third placeholder,
  so their \<^verbatim>\<open>INSERT\<close> never runs.
\<close>

lemma insert_row_time: "a_time r = PyTime t \<Longrightarrow> insert_row db r = Inl ProgrammingError"
  by (simp add: insert_row_def parameters_def)

lemma mark_attendance_raises:
  "student_id \<noteq> ''Unknown'' \<Longrightarrow>
     mark_attendance names db current_date current_time student_id confidence image_path
       = (create_table_if_not_exists db, Inl ProgrammingError)"
  by (simp add: mark_attendance_def insert_row_time)

lemma mark_attendance_rows:
  "table_rows (fst (mark_attendance names db current_date current_time student_id
                      confidence image_path)) = table_rows db"
  by (simp add: mark_attendance_def insert_row_time create_table_if_not_exists_def)

lemma insert_results_raises:
  "insert_results db current_date current_time image_path results
     = (if list_ex (\<lambda>(student_id, confidence). student_id \<noteq> ''Unknown'') results
        then Inl ProgrammingError else Inr db)"
  by (induction results) (auto simp: insert_row_time)

lemma mark_attendance_batch_rows:
  "table_rows (fst (mark_attendance_batch db current_date current_time results image_path))
     = table_rows db"
  by (simp add: mark_attendance_batch_def insert_results_raises create_table_if_not_exists_def
      Let_def)

text \<open>
  Claim C1, evaluated on the code. Student \<open>S1\<close> is recorded twice on the same date, on a
  database without an attendance table. The first call of \<^verbatim>\<open>mark_attendance\<close> already
  leaves the method with \<^verbatim>\<open>sqlite3.ProgrammingError\<close>, raised while binding the
  \<^verbatim>\<open>datetime.time\<close> parameter, and no record is persisted; the second call does the same.
  \<^verbatim>\<open>mark_attendance_batch\<close> raises at its first recognised result and persists nothing
  either. So no call persists the one record of the claim, and the second call is
  reported as an error, not as a duplicate skip.
\<close>

theorem mark_attendance_twice_same_day:
  "snd (mark_attendance [(''S1'', ''Alice'')] \<lparr>table_exists = False, table_rows = []\<rparr>
          ''2024-01-15'' ''09:00:00'' ''S1'' 0.9 ''a.jpg'') = Inl ProgrammingError
   \<and> records_for
         (fst (mark_attendance [(''S1'', ''Alice'')] \<lparr>table_exists = False, table_rows = []\<rparr>
                 ''2024-01-15'' ''09:00:00'' ''S1'' 0.9 ''a.jpg''))
         ''S1'' ''2024-01-15'' = 0
   \<and> snd (mark_attendance [(''S1'', ''Alice'')]
            (fst (mark_attendance [(''S1'', ''Alice'')] \<lparr>table_exists = False, table_rows = []\<rparr>
                    ''2024-01-15'' ''09:00:00'' ''S1'' 0.9 ''a.jpg''))
            ''2024-01-15'' ''09:05:00'' ''S1'' 0.8 ''b.jpg'') = Inl ProgrammingError
   \<and> records_for
         (fst (mark_attendance [(''S1'', ''Alice'')]
            (fst (mark_attendance [(''S1'', ''Alice'')] \<lparr>table_exists = False, table_rows = []\<rparr>
                    ''2024-01-15'' ''09:00:00'' ''S1'' 0.9 ''a.jpg''))
            ''2024-01-15'' ''09:05:00'' ''S1'' 0.8 ''b.jpg''))
         ''S1'' ''2024-01-15'' = 0
   \<and> snd (mark_attendance_batch \<lparr>table_exists = False, table_rows = []\<rparr>
            ''2024-01-15'' ''09:00:00'' [(''S1'', 0.9), (''S1'', 0.8)] ''a.jpg'')
       = Inl ProgrammingError
   \<and> records_for
         (fst (mark_attendance_batch \<lparr>table_exists = False, table_rows = []\<rparr>
                 ''2024-01-15'' ''09:00:00'' [(''S1'', 0.9), (''S1'', 0.8)] ''a.jpg''))
         ''S1'' ''2024-01-15'' = 0"
  by (simp add: mark_attendance_def mark_attendance_batch_def create_table_if_not_exists_def
      insert_row_def parameters_def records_for_def)

section \<open>Properties of the matcher\<close>

subsection \<open>Nearest neighbour\<close>

lemma argmin_less: "ds \<noteq> [] \<Longrightarrow> argmin ds < length ds"
  using arg_min_list_in [of "[0..<length ds]" "\<lambda>i. ds ! i"] by (simp add: argmin_def)

lemma nth_argmin:
  assumes "ds \<noteq> []" shows "ds ! argmin ds = Min (set ds)"
proof -
  have "[0..<length ds] \<noteq> []" using assms by simp
  from f_arg_min_list_f [OF this, of "\<lambda>i. ds ! i"]
  have "ds ! argmin ds = Min ((\<lambda>i. ds ! i) ` set [0..<length ds])" by (simp add: argmin_def)
  also have "(\<lambda>i. ds ! i) ` set [0..<length ds] = set ds"
    by (metis map_nth set_map)
  finally show ?thesis .
qed

lemma nth_argmin_le: "x \<in> set ds \<Longrightarrow> ds ! argmin ds \<le> x"
  using nth_argmin [of ds] by (cases "ds = []") auto

lemma nearest_distance_le:
  "k \<in> set gallery \<Longrightarrow> nearest_distance distance gallery e \<le> distance k e"
  by (simp add: nearest_distance_def face_distance_def)

lemma nearest_distance_attained:
  assumes "gallery \<noteq> []"
  shows "\<exists>k \<in> set gallery. distance k e = nearest_distance distance gallery e"
proof -
  have "Min (set (face_distance distance gallery e)) \<in> set (face_distance distance gallery e)"
    using assms by (intro Min_in) (simp_all add: face_distance_def)
  then show ?thesis by (auto simp: nearest_distance_def face_distance_def)
qed

lemma nth_argmin_nearest:
  assumes "gallery \<noteq> []"
  shows "face_distance distance gallery e ! argmin (face_distance distance gallery e)
           = nearest_distance distance gallery e"
  using assms nth_argmin [of "face_distance distance gallery e"]
  by (simp add: nearest_distance_def face_distance_def)

lemma compare_faces_nth:
  assumes "i < length known"
  shows "compare_faces distance known e tol ! i \<longleftrightarrow> face_distance distance known e ! i \<le> tol"
  using assms by (simp add: compare_faces_def face_distance_def)

lemma accepted_within_tolerance:
  assumes "True \<in> set (compare_faces distance known e tol)"
    and "compare_faces distance known e tol ! argmin (face_distance distance known e)"
  shows "face_distance distance known e ! argmin (face_distance distance known e) \<le> tol"
proof -
  from assms(1) have "known \<noteq> []" by (auto simp: compare_faces_def face_distance_def)
  then have "face_distance distance known e \<noteq> []" by (simp add: face_distance_def)
  from argmin_less [OF this] have "argmin (face_distance distance known e) < length known"
    by (simp add: face_distance_def)
  from compare_faces_nth [OF this] assms(2) show ?thesis by simp
qed

lemma true_in_matches_iff:
  "True \<in> set (compare_faces distance known e tol)
     \<longleftrightarrow> known \<noteq> [] \<and> Min (set (face_distance distance known e)) \<le> tol"
proof (cases "known = []")
  case True
  then show ?thesis by (simp add: compare_faces_def face_distance_def)
next
  case False
  let ?ds = "face_distance distance known e"
  have ne: "set ?ds \<noteq> {}" using False by (simp add: face_distance_def)
  have "True \<in> set (compare_faces distance known e tol) \<longleftrightarrow> (\<exists>d \<in> set ?ds. d \<le> tol)"
    by (auto simp: compare_faces_def)
  also have "\<dots> \<longleftrightarrow> Min (set ?ds) \<le> tol"
    using Min_le_iff [of "set ?ds" tol] ne by simp
  finally show ?thesis using False by simp
qed

lemmas example_defs = abs_distance_def one_student_system_def one_student_simple_def
  init_system_def initial_recognition_state_def

lemmas eval_defs = recognize_face_def compare_faces_def face_distance_def argmin_def
  student_name_of_def Let_def match_face_def py_min_def unknown_result_def nearest_distance_def

subsection \<open>The confidence floor\<close>

text \<open>
  Claim C9. In the Flask recognition path with the configured tolerance \<open>0.5\<close>, every
  face that the tolerance check accepts (\<^verbatim>\<open>True in matches\<close> and \<^verbatim>\<open>matches[best_match_index]\<close>)
  has confidence \<open>1 - distance\<close> of at least \<open>0.5\<close>, above the floor \<open>0.35\<close>; so no face
  ever takes the branch that counts a within-tolerance match as unknown for low confidence.
\<close>

theorem low_confidence_unreachable:
  assumes "face_recognition_tolerance sys = 0.5"
  shows "(True \<in> set (compare_faces distance (known_face_encodings sys) e (face_recognition_tolerance sys))
          \<and> compare_faces distance (known_face_encodings sys) e (face_recognition_tolerance sys)
              ! argmin (face_distance distance (known_face_encodings sys) e)
          \<longrightarrow> 0.5 \<le> 1 - face_distance distance (known_face_encodings sys) e
                         ! argmin (face_distance distance (known_face_encodings sys) e)
             \<and> 1 - face_distance distance (known_face_encodings sys) e
                         ! argmin (face_distance distance (known_face_encodings sys) e) > 0.35)
       \<and> (\<forall>st'. recognize_face distance sys st (loc, e) \<noteq> Inr (st', LowConfidence))"
proof -
  let ?known = "known_face_encodings sys"
  let ?tol = "face_recognition_tolerance sys"
  let ?ds = "face_distance distance ?known e"
  let ?ms = "compare_faces distance ?known e ?tol"
  have bound: "0.5 \<le> 1 - ?ds ! argmin ?ds \<and> 1 - ?ds ! argmin ?ds > 0.35"
    if "True \<in> set ?ms" "?ms ! argmin ?ds"
    using accepted_within_tolerance [OF that] assms by simp
  have "recognize_face distance sys st (loc, e) \<noteq> Inr (st', LowConfidence)" for st'
  proof
    assume r: "recognize_face distance sys st (loc, e) = Inr (st', LowConfidence)"
    then have "True \<in> set ?ms" "?ms ! argmin ?ds" "\<not> 1 - ?ds ! argmin ?ds > 0.35"
      unfolding recognize_face_def prod.case Let_def by (simp_all split: if_splits)
    with bound show False by blast
  qed
  with bound show ?thesis by blast
qed

text \<open>Claim C9 on a face at distance \<open>0.2\<close> from the gallery of one student.\<close>

theorem low_confidence_unreachable_witness:
  "face_recognition_tolerance one_student_system = 0.5
   \<and> True \<in> set (compare_faces abs_distance (known_face_encodings one_student_system) (1/5)
                   (face_recognition_tolerance one_student_system))
   \<and> compare_faces abs_distance (known_face_encodings one_student_system) (1/5)
        (face_recognition_tolerance one_student_system)
        ! argmin (face_distance abs_distance (known_face_encodings one_student_system) (1/5))
   \<and> 0.5 \<le> 1 - face_distance abs_distance (known_face_encodings one_student_system) (1/5)
                  ! argmin (face_distance abs_distance (known_face_encodings one_student_system) (1/5))
   \<and> (\<forall>st'. recognize_face abs_distance one_student_system initial_recognition_state
               ((0, 40, 40, 0), 1/5) \<noteq> Inr (st', LowConfidence))"
proof -
  have tol: "face_recognition_tolerance one_student_system = 0.5"
    by (simp add: example_defs)
  have m: "True \<in> set (compare_faces abs_distance (known_face_encodings one_student_system) (1/5)
                   (face_recognition_tolerance one_student_system))"
    "compare_faces abs_distance (known_face_encodings one_student_system) (1/5)
        (face_recognition_tolerance one_student_system)
        ! argmin (face_distance abs_distance (known_face_encodings one_student_system) (1/5))"
    by (simp_all add: example_defs compare_faces_def face_distance_def argmin_def)
  from low_confidence_unreachable [OF tol, where distance = abs_distance and e = "1/5"
      and st = initial_recognition_state and loc = "(0, 40, 40, 0)"] tol m
  show ?thesis by blast
qed

subsection \<open>The tolerance threshold\<close>

lemma py_min_Inr:
  assumes "py_min ds = Inr m"
  shows "m \<in> set ds \<and> (\<forall>x \<in> set ds. m \<le> x)"
proof (cases ds)
  case Nil
  with assms show ?thesis by (simp add: py_min_def)
next
  case (Cons d rest)
  have "fold min rest d = Min (set (d # rest))" by (rule Min.set_eq_fold [symmetric])
  with assms Cons have "m = Min (set (d # rest))"
    by (simp add: py_min_def)
  then show ?thesis using Cons by (metis List.finite_set Min_in Min_le list.distinct(1) set_empty)
qed

lemma py_min_nonempty: "ds \<noteq> [] \<Longrightarrow> \<exists>m. py_min ds = Inr m"
  by (cases ds) (simp_all add: py_min_def)

lemma best_match_loop_total:
  assumes "\<forall>(sid, encs) \<in> set items. encs \<noteq> []"
  shows "\<exists>bm bd. best_match_loop distance e best_match best_distance items = Inr (bm, bd)"
  using assms
proof (induction items arbitrary: best_match best_distance)
  case Nil
  then show ?case by simp
next
  case (Cons item items)
  obtain sid encs where item: "item = (sid, encs)" by (cases item)
  with Cons.prems have "face_distance distance encs e \<noteq> []" by (simp add: face_distance_def)
  from py_min_nonempty [OF this] obtain m where m: "py_min (face_distance distance encs e) = Inr m"
    by blast
  from Cons.prems have rest: "\<forall>(sid, encs) \<in> set items. encs \<noteq> []" by simp
  show ?case
    using Cons.IH [OF rest] by (simp add: item m)
qed

lemma best_match_loop_result:
  assumes "best_match_loop distance e best_match best_distance items = Inr (bm, bd)"
  shows "bd \<le> best_distance
       \<and> (\<forall>(sid, encs) \<in> set items. \<forall>k \<in> set encs. bd \<le> distance k e)
       \<and> (bd = best_distance \<longrightarrow> bm = best_match)
       \<and> (bd < best_distance \<longrightarrow>
            (\<exists>(sid, encs) \<in> set items. bm = Some sid \<and> (\<exists>k \<in> set encs. distance k e = bd)))"
  using assms
proof (induction items arbitrary: best_match best_distance)
  case Nil
  then show ?case by simp
next
  case (Cons item items)
  obtain sid encs where item: "item = (sid, encs)" by (cases item)
  from Cons.prems obtain m where m: "py_min (face_distance distance encs e) = Inr m"
    by (auto simp: item split: sum.splits)
  from py_min_Inr [OF m] have m_in: "\<exists>k \<in> set encs. distance k e = m"
    and m_le: "\<forall>k \<in> set encs. m \<le> distance k e"
    by (auto simp: face_distance_def)
  show ?case
  proof (cases "m < best_distance")
    case True
    with Cons.prems have "best_match_loop distance e (Some sid) m items = Inr (bm, bd)"
      by (simp add: item m)
    from Cons.IH [OF this] True m_in m_le show ?thesis
      by (auto simp: item)
  next
    case False
    with Cons.prems have "best_match_loop distance e best_match best_distance items = Inr (bm, bd)"
      by (simp add: item m)
    from Cons.IH [OF this] False m_in m_le show ?thesis
      by (auto simp: item)
  qed
qed

lemma match_face_simple:
  assumes nonempty: "\<forall>(sid, encs) \<in> set (student_encodings sys). encs \<noteq> []"
    and named: "\<forall>(sid, encs) \<in> set (student_encodings sys).
                  sid \<noteq> [] \<and> map_of (student_names sys) sid \<noteq> None"
    and nearest: "\<forall>(sid, encs) \<in> set (student_encodings sys). \<forall>k \<in> set encs. d \<le> distance k e"
    and attained: "(sid0, encs0) \<in> set (student_encodings sys)" "k0 \<in> set encs0"
      "distance k0 e = d"
  shows "(0.6 \<le> d \<longrightarrow> match_face distance sys (loc, e) = Inr (unknown_result loc))
       \<and> (d < 0.6 \<longrightarrow>
            (\<exists>sid encs k nm. (sid, encs) \<in> set (student_encodings sys) \<and> k \<in> set encs
               \<and> distance k e = d \<and> map_of (student_names sys) sid = Some nm
               \<and> match_face distance sys (loc, e)
                   = Inr \<lparr>mr_student_id = sid, mr_name = nm, mr_confidence = 1 - d,
                          mr_face_location = loc\<rparr>))"
proof -
  from best_match_loop_total [OF nonempty] obtain bm bd where
    loop: "best_match_loop distance e None 1 (student_encodings sys) = Inr (bm, bd)"
    by blast
  from best_match_loop_result [OF loop]
  have le1: "bd \<le> 1"
    and lower: "\<forall>(sid, encs) \<in> set (student_encodings sys). \<forall>k \<in> set encs. bd \<le> distance k e"
    and none: "bd = 1 \<longrightarrow> bm = None"
    and some: "bd < 1 \<longrightarrow> (\<exists>(sid, encs) \<in> set (student_encodings sys).
                 bm = Some sid \<and> (\<exists>k \<in> set encs. distance k e = bd))"
    by blast+
  from lower attained have bd_le_d: "bd \<le> d" by blast
  show ?thesis
  proof (intro conjI impI)
    assume far: "0.6 \<le> d"
    have "0.6 \<le> bd"
    proof (cases "bd < 1")
      case True
      with some obtain sid encs k where "(sid, encs) \<in> set (student_encodings sys)"
        "k \<in> set encs" "distance k e = bd" by blast
      with nearest have "d \<le> bd" by blast
      with far show ?thesis by simp
    next
      case False
      then show ?thesis by simp
    qed
    then show "match_face distance sys (loc, e) = Inr (unknown_result loc)"
      by (simp add: match_face_def loop split: option.splits)
  next
    assume close: "d < 0.6"
    with bd_le_d have lt: "bd < 1" by simp
    with some obtain sid encs k where found: "(sid, encs) \<in> set (student_encodings sys)"
      "bm = Some sid" "k \<in> set encs" "distance k e = bd" by blast
    with nearest have "d \<le> bd" by blast
    with bd_le_d have bd: "bd = d" by simp
    from named found(1) obtain nm where nm: "sid \<noteq> []" "map_of (student_names sys) sid = Some nm"
      by blast
    have "match_face distance sys (loc, e)
            = Inr \<lparr>mr_student_id = sid, mr_name = nm, mr_confidence = 1 - d,
                   mr_face_location = loc\<rparr>"
      using close by (simp add: match_face_def loop found(2) nm bd)
    with found bd nm show "\<exists>sid encs k nm. (sid, encs) \<in> set (student_encodings sys) \<and> k \<in> set encs
               \<and> distance k e = d \<and> map_of (student_names sys) sid = Some nm
               \<and> match_face distance sys (loc, e)
                   = Inr \<lparr>mr_student_id = sid, mr_name = nm, mr_confidence = 1 - d,
                          mr_face_location = loc\<rparr>"
      by blast
  qed
qed

lemma match_face_nearest:
  assumes gallery: "student_encodings sys \<noteq> []"
    and nonempty: "\<forall>(sid, encs) \<in> set (student_encodings sys). encs \<noteq> []"
    and named: "\<forall>(sid, encs) \<in> set (student_encodings sys).
                  sid \<noteq> [] \<and> map_of (student_names sys) sid \<noteq> None"
    and d: "d = nearest_distance distance (concat (map snd (student_encodings sys))) e"
  shows "(0.6 \<le> d \<longrightarrow> match_face distance sys (loc, e) = Inr (unknown_result loc))
       \<and> (d < 0.6 \<longrightarrow>
            (\<exists>sid encs k nm. (sid, encs) \<in> set (student_encodings sys) \<and> k \<in> set encs
               \<and> distance k e = d \<and> map_of (student_names sys) sid = Some nm
               \<and> match_face distance sys (loc, e)
                   = Inr \<lparr>mr_student_id = sid, mr_name = nm, mr_confidence = 1 - d,
                          mr_face_location = loc\<rparr>))"
proof -
  let ?all = "concat (map snd (student_encodings sys))"
  have all_ne: "?all \<noteq> []"
  proof -
    from gallery obtain sid encs where "(sid, encs) \<in> set (student_encodings sys)"
      by (cases "student_encodings sys") auto
    with nonempty show ?thesis by force
  qed
  have nearest: "\<forall>(sid, encs) \<in> set (student_encodings sys). \<forall>k \<in> set encs. d \<le> distance k e"
  proof (intro ballI, clarify)
    fix sid encs k
    assume "(sid, encs) \<in> set (student_encodings sys)" "k \<in> set encs"
    then have "k \<in> set ?all" by force
    from nearest_distance_le [OF this] show "d \<le> distance k e" by (simp add: d)
  qed
  from nearest_distance_attained [OF all_ne, of distance e]
  obtain k0 where "k0 \<in> set ?all" "distance k0 e = d" by (auto simp: d)
  then obtain sid0 encs0 where at: "(sid0, encs0) \<in> set (student_encodings sys)" "k0 \<in> set encs0"
    by auto
  show ?thesis
    by (rule match_face_simple [where distance = distance and e = e and ?k0.0 = k0])
      (use nonempty named nearest at \<open>distance k0 e = d\<close> in blast)+
qed

lemma recognize_face_nearest:
  assumes ne: "known_face_encodings sys \<noteq> []"
    and len: "length (known_face_names sys) = length (known_face_encodings sys)"
    and d: "d = nearest_distance distance (known_face_encodings sys) e"
    and i: "i = argmin (face_distance distance (known_face_encodings sys) e)"
  shows "i < length (known_face_encodings sys) \<and> distance (known_face_encodings sys ! i) e = d
       \<and> (d \<le> face_recognition_tolerance sys \<and> 1 - d > 0.35
            \<and> known_face_names sys ! i \<notin> recognized_student_ids st \<longrightarrow>
          recognize_face distance sys st (loc, e)
            = Inr (st\<lparr>recognized_students := recognized_students st @
                         [\<lparr>rs_student_id = known_face_names sys ! i,
                           rs_student_name =
                             student_name_of (student_database sys) (known_face_names sys ! i),
                           rs_confidence = 1 - d,
                           rs_face_location = loc\<rparr>],
                      recognized_student_ids :=
                        insert (known_face_names sys ! i) (recognized_student_ids st)\<rparr>,
                   Recognized))
       \<and> (face_recognition_tolerance sys < d \<longrightarrow>
          recognize_face distance sys st (loc, e)
            = Inr (st\<lparr>unknown_faces := unknown_faces st + 1\<rparr>, NoMatch))"
proof -
  let ?known = "known_face_encodings sys"
  let ?ds = "face_distance distance ?known e"
  let ?tol = "face_recognition_tolerance sys"
  have ds_ne: "?ds \<noteq> []" using ne by (simp add: face_distance_def)
  from argmin_less [OF ds_ne] have i_lt: "i < length ?known" by (simp add: i face_distance_def)
  have nth_d: "?ds ! i = d" using nth_argmin_nearest [OF ne] by (simp add: i d)
  then have dist_d: "distance (?known ! i) e = d" using i_lt by (simp add: face_distance_def)
  have in_matches: "True \<in> set (compare_faces distance ?known e ?tol) \<longleftrightarrow> d \<le> ?tol"
    using true_in_matches_iff [of distance ?known e ?tol] ne by (simp add: d nearest_distance_def)
  have at_best: "compare_faces distance ?known e ?tol ! i \<longleftrightarrow> d \<le> ?tol"
    using compare_faces_nth [OF i_lt] nth_d by simp
  have accept: "recognize_face distance sys st (loc, e)
            = Inr (st\<lparr>recognized_students := recognized_students st @
                         [\<lparr>rs_student_id = known_face_names sys ! i,
                           rs_student_name =
                             student_name_of (student_database sys) (known_face_names sys ! i),
                           rs_confidence = 1 - d,
                           rs_face_location = loc\<rparr>],
                      recognized_student_ids :=
                        insert (known_face_names sys ! i) (recognized_student_ids st)\<rparr>,
                   Recognized)"
    if "d \<le> ?tol" "1 - d > 0.35" "known_face_names sys ! i \<notin> recognized_student_ids st"
    using that in_matches at_best i_lt len nth_d
    unfolding recognize_face_def prod.case Let_def i [symmetric]
    by simp
  have reject: "recognize_face distance sys st (loc, e)
            = Inr (st\<lparr>unknown_faces := unknown_faces st + 1\<rparr>, NoMatch)"
    if "?tol < d"
    using that in_matches unfolding recognize_face_def prod.case Let_def by simp
  from i_lt dist_d accept reject show ?thesis by blast
qed

text \<open>
  Claim C4, as amended. \<open>ds\<close> and \<open>df\<close> are the nearest-neighbour distances of the face
  encoding \<open>e\<close> to the gallery of the simple matcher and of the Flask matcher.
  In the simple matcher (threshold \<open>0.6\<close>, exclusive) a face at distance exactly \<open>0.6\<close> is
  Unknown and a face strictly below is assigned to a student owning a nearest embedding.
  In the Flask matcher the tolerance check is inclusive: a face at distance at most the
  tolerance (also exactly equal to it) that passes the confidence floor, and whose
  student was not yet recognised in the frame, is assigned to the student owning the
  nearest embedding; a face strictly above the tolerance is counted unknown.
\<close>

theorem tolerance_threshold:
  assumes gallery: "student_encodings ssys \<noteq> []"
    and nonempty: "\<forall>(sid, encs) \<in> set (student_encodings ssys). encs \<noteq> []"
    and named: "\<forall>(sid, encs) \<in> set (student_encodings ssys).
                  sid \<noteq> [] \<and> map_of (student_names ssys) sid \<noteq> None"
    and ds: "ds = nearest_distance distance (concat (map snd (student_encodings ssys))) e"
    and known: "known_face_encodings fsys \<noteq> []"
    and len: "length (known_face_names fsys) = length (known_face_encodings fsys)"
    and df: "df = nearest_distance distance (known_face_encodings fsys) e"
    and i: "i = argmin (face_distance distance (known_face_encodings fsys) e)"
  shows "(ds = 0.6 \<longrightarrow> match_face distance ssys (loc, e) = Inr (unknown_result loc))
       \<and> (ds < 0.6 \<longrightarrow>
            (\<exists>sid encs k nm. (sid, encs) \<in> set (student_encodings ssys) \<and> k \<in> set encs
               \<and> distance k e = ds \<and> map_of (student_names ssys) sid = Some nm
               \<and> match_face distance ssys (loc, e)
                   = Inr \<lparr>mr_student_id = sid, mr_name = nm, mr_confidence = 1 - ds,
                          mr_face_location = loc\<rparr>))
       \<and> i < length (known_face_encodings fsys)
       \<and> distance (known_face_encodings fsys ! i) e = df
       \<and> (df \<le> face_recognition_tolerance fsys \<and> 1 - df > 0.35
            \<and> known_face_names fsys ! i \<notin> recognized_student_ids st \<longrightarrow>
          recognize_face distance fsys st (loc, e)
            = Inr (st\<lparr>recognized_students := recognized_students st @
                         [\<lparr>rs_student_id = known_face_names fsys ! i,
                           rs_student_name =
                             student_name_of (student_database fsys) (known_face_names fsys ! i),
                           rs_confidence = 1 - df,
                           rs_face_location = loc\<rparr>],
                      recognized_student_ids :=
                        insert (known_face_names fsys ! i) (recognized_student_ids st)\<rparr>,
                   Recognized))
       \<and> (face_recognition_tolerance fsys < df \<longrightarrow>
          recognize_face distance fsys st (loc, e)
            = Inr (st\<lparr>unknown_faces := unknown_faces st + 1\<rparr>, NoMatch))"
proof -
  from match_face_nearest [OF gallery nonempty named ds, of loc]
  have simple: "(ds = 0.6 \<longrightarrow> match_face distance ssys (loc, e) = Inr (unknown_result loc))
       \<and> (ds < 0.6 \<longrightarrow>
            (\<exists>sid encs k nm. (sid, encs) \<in> set (student_encodings ssys) \<and> k \<in> set encs
               \<and> distance k e = ds \<and> map_of (student_names ssys) sid = Some nm
               \<and> match_face distance ssys (loc, e)
                   = Inr \<lparr>mr_student_id = sid, mr_name = nm, mr_confidence = 1 - ds,
                          mr_face_location = loc\<rparr>))"
    by simp
  from simple recognize_face_nearest [OF known len df i, of st loc] show ?thesis
    by blast
qed

text \<open>
  Claim C4 as stated fails in the Flask matcher: a face whose nearest distance equals the
  tolerance \<open>0.5\<close> exactly is recognised as \<open>S1\<close>, with confidence \<open>0.5\<close>.
\<close>

theorem tolerance_inclusive_counterexample:
  "nearest_distance abs_distance (known_face_encodings one_student_system) (1/2)
     = face_recognition_tolerance one_student_system
   \<and> recognize_face abs_distance one_student_system initial_recognition_state ((0, 40, 40, 0), 1/2)
     = Inr (\<lparr>recognized_students =
                [\<lparr>rs_student_id = ''S1'', rs_student_name = ''Alice'', rs_confidence = 1/2,
                  rs_face_location = (0, 40, 40, 0)\<rparr>],
              unknown_faces = 0, recognized_student_ids = {''S1''}\<rparr>, Recognized)"
  by (simp add: example_defs eval_defs)

text \<open>The amended claim at the distances \<open>0.6\<close> and \<open>0.5\<close> from the only gallery embedding.\<close>

theorem tolerance_threshold_witness:
  "student_encodings one_student_simple \<noteq> []
   \<and> list_all (\<lambda>(sid, encs). encs \<noteq> []) (student_encodings one_student_simple)
   \<and> list_all (\<lambda>(sid, encs). sid \<noteq> [] \<and> map_of (student_names one_student_simple) sid \<noteq> None)
        (student_encodings one_student_simple)
   \<and> known_face_encodings one_student_system \<noteq> []
   \<and> length (known_face_names one_student_system) = length (known_face_encodings one_student_system)
   \<and> nearest_distance abs_distance (concat (map snd (student_encodings one_student_simple))) (3/5) = 0.6
   \<and> match_face abs_distance one_student_simple ((0, 40, 40, 0), 3/5)
        = Inr (unknown_result (0, 40, 40, 0))
   \<and> face_recognition_tolerance one_student_system
        < nearest_distance abs_distance (known_face_encodings one_student_system) (3/5)
   \<and> recognize_face abs_distance one_student_system initial_recognition_state ((0, 40, 40, 0), 3/5)
        = Inr (initial_recognition_state\<lparr>unknown_faces := 1\<rparr>, NoMatch)
   \<and> nearest_distance abs_distance (concat (map snd (student_encodings one_student_simple))) (1/2) < 0.6
   \<and> match_face abs_distance one_student_simple ((0, 40, 40, 0), 1/2)
        = Inr \<lparr>mr_student_id = ''S1'', mr_name = ''Alice'', mr_confidence = 1/2,
               mr_face_location = (0, 40, 40, 0)\<rparr>
   \<and> nearest_distance abs_distance (known_face_encodings one_student_system) (1/2)
        \<le> face_recognition_tolerance one_student_system
   \<and> 1 - nearest_distance abs_distance (known_face_encodings one_student_system) (1/2) > 0.35
   \<and> recognize_face abs_distance one_student_system initial_recognition_state ((0, 40, 40, 0), 1/2)
        = Inr (initial_recognition_state
                 \<lparr>recognized_students :=
                    [\<lparr>rs_student_id = ''S1'', rs_student_name = ''Alice'', rs_confidence = 1/2,
                      rs_face_location = (0, 40, 40, 0)\<rparr>],
                  recognized_student_ids := {''S1''}\<rparr>, Recognized)"
proof -
  have h1: "student_encodings one_student_simple \<noteq> []"
    by (simp add: example_defs)
  have h2: "\<forall>(sid, encs) \<in> set (student_encodings one_student_simple). encs \<noteq> []"
    by (simp add: example_defs)
  have h3: "\<forall>(sid, encs) \<in> set (student_encodings one_student_simple).
              sid \<noteq> [] \<and> map_of (student_names one_student_simple) sid \<noteq> None"
    by (simp add: example_defs)
  have h4: "known_face_encodings one_student_system \<noteq> []"
    by (simp add: example_defs)
  have h5: "length (known_face_names one_student_system)
              = length (known_face_encodings one_student_system)"
    by (simp add: example_defs)
  note far = tolerance_threshold [OF h1 h2 h3 refl h4 h5 refl refl,
      where distance = abs_distance and e = "3/5" and st = initial_recognition_state
        and loc = "(0, 40, 40, 0)"]
  note near = tolerance_threshold [OF h1 h2 h3 refl h4 h5 refl refl,
      where distance = abs_distance and e = "1/2" and st = initial_recognition_state
        and loc = "(0, 40, 40, 0)"]
  have d_far: "nearest_distance abs_distance (concat (map snd (student_encodings one_student_simple))) (3/5) = 0.6"
    "nearest_distance abs_distance (known_face_encodings one_student_system) (3/5) = 0.6"
    by (simp_all add: example_defs nearest_distance_def face_distance_def)
  have d_near: "nearest_distance abs_distance (concat (map snd (student_encodings one_student_simple))) (1/2) = 0.5"
    "nearest_distance abs_distance (known_face_encodings one_student_system) (1/2) = 0.5"
    by (simp_all add: example_defs nearest_distance_def face_distance_def)
  have tol: "face_recognition_tolerance one_student_system = 0.5"
    by (simp add: example_defs)
  show ?thesis
    using far near h1 h4 h5
    by (simp add: d_far d_near tol) (simp add: example_defs eval_defs)
qed

subsection \<open>One student, one result per frame\<close>

lemma recognize_face_ids:
  assumes "recognize_face distance sys st face = Inr (st', b)"
  shows "(map rs_student_id (recognized_students st') = map rs_student_id (recognized_students st)
            \<and> recognized_student_ids st' = recognized_student_ids st)
       \<or> (\<exists>sid. sid \<notin> recognized_student_ids st
            \<and> map rs_student_id (recognized_students st')
                = map rs_student_id (recognized_students st) @ [sid]
            \<and> recognized_student_ids st' = insert sid (recognized_student_ids st))"
proof -
  obtain loc e where f: "face = (loc, e)" by (cases face)
  show ?thesis
    using assms unfolding recognize_face_def f prod.case Let_def
    by (auto split: if_splits)
qed

lemma recognize_face_inv:
  assumes "recognize_face distance sys st face = Inr (st', b)" "ids_consistent st"
  shows "ids_consistent st'"
proof -
  let ?ids = "\<lambda>s. map rs_student_id (recognized_students s)"
  from assms(2) have d: "distinct (?ids st)"
    and s: "set (?ids st) = recognized_student_ids st"
    by (simp_all only: ids_consistent_def)
  from recognize_face_ids [OF assms(1)] show ?thesis
  proof (elim disjE exE conjE)
    assume "?ids st' = ?ids st" "recognized_student_ids st' = recognized_student_ids st"
    with d s show ?thesis by (simp only: ids_consistent_def)
  next
    fix sid
    assume new: "sid \<notin> recognized_student_ids st" "?ids st' = ?ids st @ [sid]"
      "recognized_student_ids st' = insert sid (recognized_student_ids st)"
    have "distinct (?ids st @ [sid])" using d s new(1) by auto
    moreover have "set (?ids st @ [sid]) = insert sid (recognized_student_ids st)"
      using s by auto
    ultimately show ?thesis using new by (simp only: ids_consistent_def)
  qed
qed

lemma recognize_loop_inv:
  assumes "recognize_loop distance sys st faces = Inr st'" "ids_consistent st"
  shows "ids_consistent st'"
  using assms
proof (induction faces arbitrary: st)
  case Nil
  then show ?case by simp
next
  case (Cons face faces)
  then show ?case
    by (auto split: sum.splits dest: recognize_face_inv)
qed

lemma recognize_face_total:
  assumes "length (known_face_names sys) = length (known_face_encodings sys)"
  shows "\<exists>st' b. recognize_face distance sys st face = Inr (st', b)"
proof -
  obtain loc e where f: "face = (loc, e)" by (cases face)
  let ?ds = "face_distance distance (known_face_encodings sys) e"
  show ?thesis
  proof (cases "known_face_encodings sys = []")
    case True
    then show ?thesis by (simp add: recognize_face_def f compare_faces_def face_distance_def)
  next
    case False
    then have "?ds \<noteq> []" by (simp add: face_distance_def)
    from argmin_less [OF this] have "argmin ?ds < length (known_face_names sys)"
      using assms by (simp add: face_distance_def)
    then show ?thesis by (simp add: recognize_face_def f Let_def)
  qed
qed

lemma recognize_loop_total:
  assumes "length (known_face_names sys) = length (known_face_encodings sys)"
  shows "\<exists>st'. recognize_loop distance sys st faces = Inr st'"
proof (induction faces arbitrary: st)
  case Nil
  then show ?case by simp
next
  case (Cons face faces)
  from recognize_face_total [OF assms, of distance st face]
  obtain st1 b where "recognize_face distance sys st face = Inr (st1, b)" by blast
  with Cons [of st1] show ?case by simp
qed

lemma recognize_face_duplicate:
  assumes ne: "known_face_encodings sys \<noteq> []"
    and len: "length (known_face_names sys) = length (known_face_encodings sys)"
    and d: "d = nearest_distance distance (known_face_encodings sys) e"
    and i: "i = argmin (face_distance distance (known_face_encodings sys) e)"
    and within: "d \<le> face_recognition_tolerance sys"
    and seen: "known_face_names sys ! i \<in> recognized_student_ids st"
  shows "recognize_face distance sys st (loc, e) = Inr (st, AlreadyRecognized)"
proof -
  let ?known = "known_face_encodings sys"
  let ?ds = "face_distance distance ?known e"
  let ?tol = "face_recognition_tolerance sys"
  have ds_ne: "?ds \<noteq> []" using ne by (simp add: face_distance_def)
  from argmin_less [OF ds_ne] have i_lt: "i < length ?known" by (simp add: i face_distance_def)
  have nth_d: "?ds ! i = d" using nth_argmin_nearest [OF ne] by (simp add: i d)
  have in_matches: "True \<in> set (compare_faces distance ?known e ?tol)"
    using true_in_matches_iff [of distance ?known e ?tol] ne within
    by (simp add: d nearest_distance_def)
  have at_best: "compare_faces distance ?known e ?tol ! i"
    using compare_faces_nth [OF i_lt] nth_d within by simp
  show ?thesis
    using in_matches at_best i_lt len seen
    unfolding recognize_face_def prod.case Let_def i [symmetric]
    by simp
qed

text \<open>
  Claim C2, as amended. In the Flask recognition path the recognised students of one
  frame carry pairwise different student ids, and the call does return a result for
  every non-empty frame (given name and encoding lists of equal length). A face whose
  best match is within tolerance and is a student already recognised for an earlier face
  of the frame is skipped: it adds no result and is not counted as an unknown face.
\<close>

theorem recognized_students_distinct:
  assumes len: "length (known_face_names sys) = length (known_face_encodings sys)"
    and ne: "known_face_encodings sys \<noteq> []"
    and d: "d = nearest_distance distance (known_face_encodings sys) e"
    and i: "i = argmin (face_distance distance (known_face_encodings sys) e)"
  shows "(faces \<noteq> [] \<longrightarrow>
            (\<exists>rs u. recognize_faces_in_image distance sys now faces
                       = RecognitionResult rs (length faces) (length rs) u now
                  \<and> distinct (map rs_student_id rs)))
       \<and> (d \<le> face_recognition_tolerance sys
            \<and> known_face_names sys ! i \<in> recognized_student_ids st \<longrightarrow>
          recognize_face distance sys st (loc, e) = Inr (st, AlreadyRecognized))"
proof (intro conjI impI)
  assume "faces \<noteq> []"
  from recognize_loop_total [OF len, of distance initial_recognition_state faces]
  obtain st' where loop: "recognize_loop distance sys initial_recognition_state faces = Inr st'"
    by blast
  have "ids_consistent initial_recognition_state"
    by (simp add: ids_consistent_def initial_recognition_state_def)
  from recognize_loop_inv [OF loop this]
  have "distinct (map rs_student_id (recognized_students st'))"
    by (simp only: ids_consistent_def)
  with loop \<open>faces \<noteq> []\<close>
  show "\<exists>rs u. recognize_faces_in_image distance sys now faces
                       = RecognitionResult rs (length faces) (length rs) u now
                  \<and> distinct (map rs_student_id rs)"
    by (simp add: recognize_faces_in_image_def)
next
  assume "d \<le> face_recognition_tolerance sys
            \<and> known_face_names sys ! i \<in> recognized_student_ids st"
  with recognize_face_duplicate [OF ne len d i]
  show "recognize_face distance sys st (loc, e) = Inr (st, AlreadyRecognized)" by blast
qed

text \<open>
  Claim C2 as stated fails on both paths. Two faces of one frame are both nearest to
  student \<open>S1\<close>. The simple matcher returns two results for \<open>S1\<close>; the Flask path returns
  one result and counts no unknown face, although the frame has two faces.
\<close>

theorem duplicate_faces_counterexample:
  "detect_faces_in_image abs_distance one_student_simple
       [((0, 40, 40, 0), 1/10), ((0, 100, 40, 60), 1/5)]
     = Inr [\<lparr>mr_student_id = ''S1'', mr_name = ''Alice'', mr_confidence = 9/10,
              mr_face_location = (0, 40, 40, 0)\<rparr>,
            \<lparr>mr_student_id = ''S1'', mr_name = ''Alice'', mr_confidence = 4/5,
              mr_face_location = (0, 100, 40, 60)\<rparr>]
   \<and> recognize_faces_in_image abs_distance one_student_system ''2024-01-15T09:00:00''
       [((0, 40, 40, 0), 1/10), ((0, 100, 40, 60), 1/5)]
     = RecognitionResult
         [\<lparr>rs_student_id = ''S1'', rs_student_name = ''Alice'', rs_confidence = 9/10,
           rs_face_location = (0, 40, 40, 0)\<rparr>] 2 1 0 ''2024-01-15T09:00:00''"
  by (simp add: example_defs eval_defs detect_faces_in_image_def recognize_faces_in_image_def)

text \<open>The amended claim on the frame of the counterexample.\<close>

theorem recognized_students_distinct_witness:
  "length (known_face_names one_student_system) = length (known_face_encodings one_student_system)
   \<and> known_face_encodings one_student_system \<noteq> []
   \<and> [((0, 40, 40, 0), 1/10), ((0, 100, 40, 60), 1/5)] \<noteq> ([] :: (box \<times> real) list)
   \<and> (\<exists>rs u. recognize_faces_in_image abs_distance one_student_system ''2024-01-15T09:00:00''
                 [((0, 40, 40, 0), 1/10), ((0, 100, 40, 60), 1/5)]
               = RecognitionResult rs 2 (length rs) u ''2024-01-15T09:00:00''
             \<and> distinct (map rs_student_id rs))
   \<and> nearest_distance abs_distance (known_face_encodings one_student_system) (1/5)
        \<le> face_recognition_tolerance one_student_system
   \<and> known_face_names one_student_system
        ! argmin (face_distance abs_distance (known_face_encodings one_student_system) (1/5))
        \<in> {''S1''}
   \<and> recognize_face abs_distance one_student_system
        \<lparr>recognized_students =
           [\<lparr>rs_student_id = ''S1'', rs_student_name = ''Alice'', rs_confidence = 9/10,
             rs_face_location = (0, 40, 40, 0)\<rparr>],
         unknown_faces = 0, recognized_student_ids = {''S1''}\<rparr>
        ((0, 100, 40, 60), 1/5)
      = Inr (\<lparr>recognized_students =
           [\<lparr>rs_student_id = ''S1'', rs_student_name = ''Alice'', rs_confidence = 9/10,
             rs_face_location = (0, 40, 40, 0)\<rparr>],
         unknown_faces = 0, recognized_student_ids = {''S1''}\<rparr>, AlreadyRecognized)"
proof -
  have h1: "length (known_face_names one_student_system)
              = length (known_face_encodings one_student_system)"
    by (simp add: example_defs)
  have h2: "known_face_encodings one_student_system \<noteq> []"
    by (simp add: example_defs)
  note at = recognized_students_distinct [OF h1 h2 refl refl,
      where distance = abs_distance and e = "1/5" and loc = "(0, 100, 40, 60)"
        and now = "''2024-01-15T09:00:00''"
        and faces = "[((0, 40, 40, 0), 1/10), ((0, 100, 40, 60), 1/5)]"
        and st = "\<lparr>recognized_students =
           [\<lparr>rs_student_id = ''S1'', rs_student_name = ''Alice'', rs_confidence = 9/10,
             rs_face_location = (0, 40, 40, 0)\<rparr>],
         unknown_faces = 0, recognized_student_ids = {''S1''}\<rparr>"]
  have d: "nearest_distance abs_distance (known_face_encodings one_student_system) (1/5) = 1/5"
    by (simp add: example_defs nearest_distance_def face_distance_def)
  have tol: "face_recognition_tolerance one_student_system = 1/2"
    by (simp add: example_defs)
  have idx: "known_face_names one_student_system
        ! argmin (face_distance abs_distance (known_face_encodings one_student_system) (1/5))
        = ''S1''"
    by (simp add: example_defs argmin_def face_distance_def)
  show ?thesis
    using at h1 h2 by (simp add: d tol idx numeral_2_eq_2)
qed

section \<open>Properties of the registration pipeline\<close>

subsection \<open>The example data\<close>

lemmas pipeline_defs = process_single_image_def fast_face_detection_def detected_def
  remove_duplicate_faces_def filter_and_validate_faces_def valid_face_def face_area_def

lemma example_images:
  "process_single_image example_world 35 (''alice'', ''a.jpg'') = Done (Some 1)"
  "process_single_image example_world 35 (''alice'', ''a2.jpg'') = Done (Some 2)"
  "process_single_image example_world 35 (''bob'', ''noface.jpg'') = Done None"
  "process_single_image example_world 35 (''carol'', ''c.jpg'') = Done (Some 3)"
  "process_single_image example_world 35 (''alice'', ''slow.jpg'') = Block"
  by (simp_all add: example_world_def pipeline_defs)

lemma example_world_fields:
  "as_completed example_world paths = paths"
  "can_write example_world f"
  "photos_dir_exists example_world"
  by (simp_all add: example_world_def)

lemmas register_defs = register_student_def save_precomputed_encoding_def encoding_of_def
  List.map_filter_simps Let_def

lemma example_names: "upper ''alice'' = ''ALICE''" "upper ''bob'' = ''BOB''" "upper ''carol'' = ''CAROL''"
  "title (replace_underscores ''alice'') = ''Alice''"
  "title (replace_underscores ''bob'') = ''Bob''"
  "title (replace_underscores ''carol'') = ''Carol''"
  by code_simp+

lemma example_folders: "student_folders example_world = [''alice'', ''bob'', ''carol'']"
  by (simp add: student_folders_def example_world_def startswith_def)

lemma example_student_images:
  "get_student_images example_world ''alice'' = [(''alice'', ''a.jpg'')]"
  "get_student_images example_world ''bob'' = [(''bob'', ''noface.jpg'')]"
  "get_student_images example_world ''carol'' = [(''carol'', ''c.jpg'')]"
  by (simp_all add: get_student_images_def example_world_def)

lemma example_has_encoding:
  "has_encoding registered_alice ''ALICE''"
  "\<not> has_encoding registered_alice ''BOB''"
  "\<not> has_encoding registered_alice ''CAROL''"
  "existing_encodings registered_alice = [''ALICE'']"
  "min_face_size registered_alice = 35"
  by (simp_all add: has_encoding_def registered_alice_def init_system_def existing_encodings_def
      startswith_def)

lemma slow_world_facts:
  "process_single_image slow_world 35 (''alice'', ''a.jpg'') = Done (Some 1)"
  "process_single_image slow_world 35 (''alice'', ''slow.jpg'') = Block"
  "as_completed slow_world paths = paths"
  "photos_dir_exists slow_world"
  "student_folders slow_world = [''alice'', ''bob'', ''carol'']"
  "get_student_images slow_world ''alice'' = [(''alice'', ''slow.jpg''), (''alice'', ''a.jpg'')]"
  by (simp_all add: slow_world_def example_world_def pipeline_defs student_folders_def
      startswith_def get_student_images_def)


subsection \<open>One student\<close>

lemma process_single_image_not_Raise: "process_single_image w m p \<noteq> Raise"
  by (simp add: process_single_image_def split: call.splits list.splits)

lemma map_filter_empty_iff:
  "List.map_filter f xs = [] \<longleftrightarrow> (\<forall>x \<in> set xs. f x = None)"
  by (induction xs) (auto simp: List.map_filter_simps split: option.splits)

lemma register_student_result:
  assumes completed: "mset (as_completed w image_paths) = mset image_paths"
    and nb: "none_blocks w (min_face_size sys) image_paths"
  shows "\<exists>sys'. register_student w now sys student_id student_name image_paths
                 = Some (sys', produces_encoding w (min_face_size sys) image_paths)
         \<and> min_face_size sys' = min_face_size sys
         \<and> encode_log sys' = encode_log sys @ image_paths
         \<and> (\<forall>sid. sid \<noteq> student_id \<longrightarrow>
               map_of (precomputed_encodings sys') sid = map_of (precomputed_encodings sys) sid)"
proof -
  let ?m = "min_face_size sys"
  let ?outcomes = "map (process_single_image w ?m) (as_completed w image_paths)"
  from completed have set_eq: "set (as_completed w image_paths) = set image_paths"
    by (rule mset_eq_setD)
  from nb set_eq have no_block: "Block \<notin> set ?outcomes"
    by (auto simp: none_blocks_def list_all_iff)
  have prod: "produces_encoding w ?m image_paths \<longleftrightarrow> List.map_filter encoding_of ?outcomes \<noteq> []"
    using set_eq by (auto simp: produces_encoding_def list_ex_iff map_filter_empty_iff)
  show ?thesis
  proof (cases "List.map_filter encoding_of ?outcomes = []")
    case True
    with no_block prod show ?thesis
      by (simp add: register_student_def Let_def)
  next
    case False
    with no_block prod show ?thesis
      by (simp add: register_student_def Let_def save_precomputed_encoding_def update_conv')
  qed
qed

lemma register_student_blocked:
  assumes completed: "mset (as_completed w image_paths) = mset image_paths"
    and "\<not> none_blocks w (min_face_size sys) image_paths"
  shows "register_student w now sys student_id student_name image_paths = None"
proof -
  from completed have set_eq: "set (as_completed w image_paths) = set image_paths"
    by (rule mset_eq_setD)
  with assms(2) have "Block \<in> set (map (process_single_image w (min_face_size sys))
                                      (as_completed w image_paths))"
    by (auto simp: none_blocks_def list_all_iff intro!: rev_image_eqI)
  then show ?thesis by (simp add: register_student_def Let_def)
qed

text \<open>
  Claim C10. When every image task of a student completes without an embedding,
  \<^verbatim>\<open>register_student\<close> returns \<open>False\<close> and the state it leaves differs from the state
  before only in the record of submitted images: \<^verbatim>\<open>student_database\<close>,
  \<^verbatim>\<open>known_face_encodings\<close>, \<^verbatim>\<open>known_face_names\<close> and the encoding files are unchanged.
\<close>

theorem register_student_without_encodings:
  assumes none: "\<forall>p \<in> set image_paths. process_single_image w (min_face_size sys) p = Done None"
    and completed: "mset (as_completed w image_paths) = mset image_paths"
  shows "register_student w now sys student_id student_name image_paths
           = Some (sys\<lparr>encode_log := encode_log sys @ image_paths\<rparr>, False)
       \<and> student_database (sys\<lparr>encode_log := encode_log sys @ image_paths\<rparr>) = student_database sys
       \<and> known_face_encodings (sys\<lparr>encode_log := encode_log sys @ image_paths\<rparr>)
           = known_face_encodings sys
       \<and> known_face_names (sys\<lparr>encode_log := encode_log sys @ image_paths\<rparr>) = known_face_names sys
       \<and> precomputed_encodings (sys\<lparr>encode_log := encode_log sys @ image_paths\<rparr>)
           = precomputed_encodings sys"
proof -
  let ?outcomes = "map (process_single_image w (min_face_size sys)) (as_completed w image_paths)"
  from completed have "set (as_completed w image_paths) = set image_paths"
    by (rule mset_eq_setD)
  with none have all_none: "\<forall>r \<in> set ?outcomes. r = Done None" by auto
  then have no_block: "Block \<notin> set ?outcomes" by auto
  from all_none have "List.map_filter encoding_of ?outcomes = []"
    by (induction ?outcomes) (auto simp: List.map_filter_simps encoding_of_def map_filter_def)
  with no_block show ?thesis
    by (simp add: register_student_def Let_def)
qed

text \<open>Claim C10 on the student whose only image shows no face.\<close>

theorem register_student_without_encodings_witness:
  "list_all (\<lambda>p. process_single_image example_world (min_face_size registered_alice) p = Done None)
     [(''bob'', ''noface.jpg'')]
   \<and> mset (as_completed example_world [(''bob'', ''noface.jpg'')]) = mset [(''bob'', ''noface.jpg'')]
   \<and> register_student example_world ''2024-01-15T09:00:00'' registered_alice ''BOB'' ''Bob''
        [(''bob'', ''noface.jpg'')]
      = Some (registered_alice\<lparr>encode_log := [(''bob'', ''noface.jpg'')]\<rparr>, False)
   \<and> student_database (registered_alice\<lparr>encode_log := [(''bob'', ''noface.jpg'')]\<rparr>) = []
   \<and> known_face_encodings (registered_alice\<lparr>encode_log := [(''bob'', ''noface.jpg'')]\<rparr>) = []
   \<and> known_face_names (registered_alice\<lparr>encode_log := [(''bob'', ''noface.jpg'')]\<rparr>) = []
   \<and> precomputed_encodings (registered_alice\<lparr>encode_log := [(''bob'', ''noface.jpg'')]\<rparr>)
       = precomputed_encodings registered_alice"
proof -
  have h1: "\<forall>p \<in> set [(''bob'', ''noface.jpg'')].
              process_single_image example_world (min_face_size registered_alice) p = Done None"
    by (simp add: example_has_encoding example_images)
  have h2: "mset (as_completed example_world [(''bob'', ''noface.jpg'')])
              = mset [(''bob'', ''noface.jpg'')]"
    by (simp add: example_world_fields)
  from register_student_without_encodings [OF h1 h2, of "''2024-01-15T09:00:00''" "''BOB''" "''Bob''"]
    h1 h2
  show ?thesis by (simp add: registered_alice_def init_system_def)
qed

subsection \<open>The flattened lists and the per-student map\<close>

lemma update_fresh: "map_of al k = None \<Longrightarrow> AList.update k v al = al @ [(k, v)]"
  by (induction al) (auto split: if_splits)

lemma zip_replicate_right: "zip xs (replicate (length xs) y) = map (\<lambda>x. (x, y)) xs"
  by (induction xs) auto

lemma flattened_append:
  "flattened (db @ [(sid, student)]) = flattened db @ map (\<lambda>e. (e, sid)) (sd_encodings student)"
  by (simp add: flattened_def)

lemma extend_consistent:
  assumes "gallery_consistent sys" and "map_of (student_database sys) sid = None"
    and "sd_encodings student = encs"
  shows "gallery_consistent
           (sys\<lparr>student_database := AList.update sid student (student_database sys),
                known_face_encodings := known_face_encodings sys @ encs,
                known_face_names := known_face_names sys @ replicate (length encs) sid\<rparr>)"
  using assms
  by (simp add: gallery_consistent_def update_fresh flattened_append zip_replicate_right)

lemma load_encoding_file_consistent:
  assumes "gallery_consistent sys"
  shows "gallery_consistent (fst (load_encoding_file now encoding_file (sys, n)))"
proof -
  obtain sid content where f: "encoding_file = (sid, content)" by (cases encoding_file)
  show ?thesis
  proof (cases content)
    case Corrupt
    with assms show ?thesis by (simp add: load_encoding_file_def f)
  next
    case (Artifact nm encs rd ic tc)
    show ?thesis
    proof (cases "\<not> startswith sid ''STUDENT_'' \<and> map_of (student_database sys) sid = None")
      case True
      with extend_consistent [OF assms, of sid _ encs] show ?thesis
        by (simp add: load_encoding_file_def f Artifact)
    next
      case False
      with assms show ?thesis by (auto simp: load_encoding_file_def f Artifact)
    qed
  qed
qed

lemma fold_load_consistent:
  assumes "gallery_consistent sys"
  shows "gallery_consistent (fst (fold (load_encoding_file now) files (sys, n)))"
  using assms
proof (induction files arbitrary: sys n)
  case Nil
  then show ?case by simp
next
  case (Cons f files)
  obtain sys1 n1 where step: "load_encoding_file now f (sys, n) = (sys1, n1)"
    by (cases "load_encoding_file now f (sys, n)")
  with load_encoding_file_consistent [OF Cons.prems, of now f n]
  have "gallery_consistent sys1" by simp
  from Cons.IH [OF this, of n1] step show ?case by simp
qed

lemma load_precomputed_encodings_consistent:
  assumes "gallery_consistent sys"
  shows "gallery_consistent (fst (load_precomputed_encodings now sys))"
  using assms fold_load_consistent [OF assms, of now "precomputed_encodings sys" 0]
  by (auto simp: load_precomputed_encodings_def split: prod.splits)

lemma register_student_fresh_consistent:
  assumes "gallery_consistent sys" and fresh: "map_of (student_database sys) student_id = None"
    and reg: "register_student w now sys student_id student_name image_paths = Some (sys', ok)"
  shows "gallery_consistent sys'"
proof -
  let ?sys1 = "sys\<lparr>encode_log := encode_log sys @ image_paths\<rparr>"
  have c1: "gallery_consistent ?sys1" using assms(1) by (simp add: gallery_consistent_def)
  have f1: "map_of (student_database ?sys1) student_id = None" using fresh by simp
  show ?thesis
  proof (cases ok)
    case False
    with reg have "sys' = ?sys1"
      by (auto simp: register_student_def Let_def split: if_splits)
    with c1 show ?thesis by simp
  next
    case True
    let ?encs = "List.map_filter encoding_of
                   (map (process_single_image w (min_face_size sys)) (as_completed w image_paths))"
    let ?data = "\<lparr>sd_name = student_name, sd_encodings = ?encs, sd_registered_date = now,
                   sd_image_count = length ?encs, sd_total_encodings = length ?encs\<rparr>"
    let ?sys2 = "?sys1\<lparr>student_database := AList.update student_id ?data (student_database ?sys1),
                       known_face_encodings := known_face_encodings ?sys1 @ ?encs,
                       known_face_names := known_face_names ?sys1 @ replicate (length ?encs) student_id\<rparr>"
    from True reg have "sys' = save_precomputed_encoding w ?sys2 student_id ?data"
      by (auto simp: register_student_def Let_def split: if_splits)
    moreover have "gallery_consistent ?sys2"
      by (rule extend_consistent [OF c1 f1]) simp
    ultimately show ?thesis
      by (simp add: save_precomputed_encoding_def gallery_consistent_def)
  qed
qed

text \<open>
  Claim C3, evaluated on the code. Student \<open>ALICE\<close> is registered from one image and then
  registered again from another one. After the first registration the flattened lists
  agree with the per-student map. After the second, the map holds only the new embedding
  \<open>2\<close> for \<open>ALICE\<close>, while the flattened lists hold the old embedding \<open>1\<close> and the new one:
  the prior embedding set was replaced in the map and kept in the lists.
\<close>

theorem reregistration_diverges:
  "(case register_student example_world ''2024-01-15T09:00:00'' (init_system [] None)
           ''ALICE'' ''Alice'' [(''alice'', ''a.jpg'')] of
      None \<Rightarrow> False
    | Some (sys1, ok1) \<Rightarrow>
        ok1 \<and> gallery_consistent sys1 \<and>
        (case register_student example_world ''2024-01-16T09:00:00'' sys1
                ''ALICE'' ''Alice'' [(''alice'', ''a2.jpg'')] of
           None \<Rightarrow> False
         | Some (sys2, ok2) \<Rightarrow>
             ok2
             \<and> map (\<lambda>(sid, student). (sid, sd_encodings student)) (student_database sys2)
                 = [(''ALICE'', [2])]
             \<and> known_face_encodings sys2 = [1, 2]
             \<and> known_face_names sys2 = [''ALICE'', ''ALICE'']
             \<and> \<not> gallery_consistent sys2))"
  by (simp add: register_defs init_system_def example_images example_world_fields
      gallery_consistent_def flattened_def)

subsection \<open>An image that never completes\<close>

text \<open>
  Claim C5, evaluated on the code. The folder of \<open>alice\<close> holds an image that encodes at
  once and an image whose encoding never returns. Whatever \<^verbatim>\<open>encoding_timeout\<close> is set
  to, \<^verbatim>\<open>register_student\<close> does not return, and neither does the batch that contains the
  student: the blocked image is not given up as a failed encoding and the remaining
  images and students are not reached.
\<close>

theorem blocked_image_stalls_registration:
  "process_single_image slow_world 35 (''alice'', ''a.jpg'') = Done (Some 1)
   \<and> process_single_image slow_world 35 (''alice'', ''slow.jpg'') = Block
   \<and> (\<forall>t. register_student slow_world ''2024-01-15T09:00:00''
              ((init_system [] None)\<lparr>encoding_timeout := t\<rparr>) ''ALICE'' ''Alice''
              [(''alice'', ''slow.jpg''), (''alice'', ''a.jpg'')] = None)
   \<and> (\<forall>t. batch_register_from_folders slow_world ''2024-01-15T09:00:00''
              ((init_system [] None)\<lparr>encoding_timeout := t\<rparr>) = None)"
proof -
  have reg: "register_student slow_world ''2024-01-15T09:00:00''
              ((init_system [] None)\<lparr>encoding_timeout := t\<rparr>) ''ALICE'' nm
              [(''alice'', ''slow.jpg''), (''alice'', ''a.jpg'')] = None" for t nm
    by (simp add: register_student_def init_system_def slow_world_facts)
  have split: "split_students ((init_system [] None)\<lparr>encoding_timeout := t\<rparr>) results []
                 [''alice'', ''bob'', ''carol''] = (results, [''alice'', ''bob'', ''carol''])"
    for t and results :: batch_results
    by (simp add: has_encoding_def init_system_def)
  have student: "process_student slow_world ''2024-01-15T09:00:00''
                   ((init_system [] None)\<lparr>encoding_timeout := t\<rparr>) results ''alice'' = None"
    for t results
    by (simp add: process_student_def slow_world_facts example_names reg)
  have existing: "existing_encodings ((init_system [] None)\<lparr>encoding_timeout := t\<rparr>) = []"
    for t :: nat
    by (simp add: existing_encodings_def init_system_def)
  have batch: "batch_register_from_folders slow_world ''2024-01-15T09:00:00''
              ((init_system [] None)\<lparr>encoding_timeout := t\<rparr>) = None" for t
    by (simp add: batch_register_from_folders_def slow_world_facts split student existing
        del: split_students.simps)
  from reg batch show ?thesis by (simp add: slow_world_facts)
qed

subsection \<open>The batch\<close>

lemma add_result_simps:
  "details (add_success f d results) = AList.update f d (details results)"
  "details (add_failure f d results) = AList.update f d (details results)"
  "successful (add_success f d results) = successful results + 1"
  "successful (add_failure f d results) = successful results"
  "failed (add_success f d results) = failed results"
  "failed (add_failure f d results) = failed results + 1"
  "total_students (add_success f d results) = total_students results"
  "total_students (add_failure f d results) = total_students results"
  by (simp_all add: add_success_def add_failure_def)

lemma split_students_result:
  "\<exists>results1.
     split_students sys results acc folders
       = (results1, acc @ filter (\<lambda>f. \<not> has_encoding sys (upper f)) folders)
     \<and> (\<forall>f. map_of (details results1) f
            = (if f \<in> set folders \<and> has_encoding sys (upper f) then Some (from_existing f)
               else map_of (details results) f))
     \<and> successful results1
         = successful results + length (filter (\<lambda>f. has_encoding sys (upper f)) folders)
     \<and> failed results1 = failed results
     \<and> total_students results1 = total_students results"
proof (induction folders arbitrary: results acc)
  case Nil
  then show ?case by simp
next
  case (Cons folder folders)
  show ?case
  proof (cases "has_encoding sys (upper folder)")
    case True
    from Cons.IH [of "add_success folder (from_existing folder) results" acc]
    obtain results1 where
      "split_students sys (add_success folder (from_existing folder) results) acc folders
         = (results1, acc @ filter (\<lambda>f. \<not> has_encoding sys (upper f)) folders)"
      "\<forall>f. map_of (details results1) f
            = (if f \<in> set folders \<and> has_encoding sys (upper f) then Some (from_existing f)
               else map_of (details (add_success folder (from_existing folder) results)) f)"
      "successful results1
         = successful (add_success folder (from_existing folder) results)
           + length (filter (\<lambda>f. has_encoding sys (upper f)) folders)"
      "failed results1 = failed (add_success folder (from_existing folder) results)"
      "total_students results1 = total_students (add_success folder (from_existing folder) results)"
      by blast
    with True show ?thesis
      by (intro exI [of _ results1]) (auto simp: add_result_simps update_conv')
  next
    case False
    from Cons.IH [of results "acc @ [folder]"]
    obtain results1 where
      "split_students sys results (acc @ [folder]) folders
         = (results1, (acc @ [folder]) @ filter (\<lambda>f. \<not> has_encoding sys (upper f)) folders)"
      "\<forall>f. map_of (details results1) f
            = (if f \<in> set folders \<and> has_encoding sys (upper f) then Some (from_existing f)
               else map_of (details results) f)"
      "successful results1
         = successful results + length (filter (\<lambda>f. has_encoding sys (upper f)) folders)"
      "failed results1 = failed results"
      "total_students results1 = total_students results"
      by blast
    with False show ?thesis
      by (intro exI [of _ results1]) auto
  qed
qed

lemma fold_use_existing:
  "(\<forall>f. map_of (details (fold (use_existing sys) folders results)) f
          = (if f \<in> set folders
             then Some (if has_encoding sys (upper f) then from_existing f
                        else Failed ''No existing encoding found'' 0)
             else map_of (details results) f))
   \<and> successful (fold (use_existing sys) folders results)
       = successful results + length (filter (\<lambda>f. has_encoding sys (upper f)) folders)
   \<and> failed (fold (use_existing sys) folders results)
       = failed results + length (filter (\<lambda>f. \<not> has_encoding sys (upper f)) folders)
   \<and> total_students (fold (use_existing sys) folders results) = total_students results"
proof (induction folders arbitrary: results)
  case Nil
  then show ?case by simp
next
  case (Cons folder folders)
  from Cons.IH [of "use_existing sys folder results"] show ?case
    by (auto simp: use_existing_def add_result_simps update_conv')
qed

lemma process_student_result:
  assumes completed: "mset (as_completed w (get_student_images w folder)) = mset (get_student_images w folder)"
    and nb: "none_blocks w (min_face_size sys) (get_student_images w folder)"
  shows "\<exists>sys' d. process_student w now sys results folder
                   = Some (sys', (if detail_success d then add_success else add_failure) folder d results)
         \<and> (detail_success d \<longleftrightarrow> produces_encoding w (min_face_size sys) (get_student_images w folder))
         \<and> min_face_size sys' = min_face_size sys
         \<and> encode_log sys' = encode_log sys @ get_student_images w folder
         \<and> (\<forall>sid. sid \<noteq> upper folder \<longrightarrow>
               map_of (precomputed_encodings sys') sid = map_of (precomputed_encodings sys) sid)"
proof (cases "get_student_images w folder = []")
  case True
  then show ?thesis
    by (intro exI [of _ sys] exI [of _ "Failed ''No images found'' 0"])
      (simp add: process_student_def produces_encoding_def)
next
  case False
  let ?paths = "get_student_images w folder"
  let ?nm = "title (replace_underscores folder)"
  from register_student_result [OF completed nb, of now "upper folder" ?nm]
  obtain sys' where reg: "register_student w now sys (upper folder) ?nm ?paths
                 = Some (sys', produces_encoding w (min_face_size sys) ?paths)"
    and rest: "min_face_size sys' = min_face_size sys"
      "encode_log sys' = encode_log sys @ ?paths"
      "\<forall>sid. sid \<noteq> upper folder \<longrightarrow>
               map_of (precomputed_encodings sys') sid = map_of (precomputed_encodings sys) sid"
    by blast
  show ?thesis
  proof (cases "produces_encoding w (min_face_size sys) ?paths")
    case True
    with False reg rest show ?thesis
      by (intro exI [of _ sys'] exI [of _ "Registered (upper folder) ?nm (length ?paths)
                            (stored_encodings sys' (upper folder))"])
        (simp add: process_student_def Let_def)
  next
    case no: False
    with False reg rest show ?thesis
      by (intro exI [of _ sys'] exI [of _ "Failed ''Registration failed'' (length ?paths)"])
        (simp add: process_student_def Let_def)
  qed
qed

lemma process_students_result:
  assumes fair: "\<forall>paths. mset (as_completed w paths) = mset paths"
    and nb: "\<forall>f \<in> set folders. none_blocks w (min_face_size sys) (get_student_images w f)"
  shows "\<exists>sys' results'. process_students w now sys results folders = Some (sys', results')
     \<and> min_face_size sys' = min_face_size sys
     \<and> encode_log sys' = encode_log sys @ concat (map (get_student_images w) folders)
     \<and> (\<forall>sid. sid \<notin> upper ` set folders \<longrightarrow>
           map_of (precomputed_encodings sys') sid = map_of (precomputed_encodings sys) sid)
     \<and> (\<forall>f. f \<notin> set folders \<longrightarrow> map_of (details results') f = map_of (details results) f)
     \<and> (\<forall>f \<in> set folders. \<exists>d. map_of (details results') f = Some d
            \<and> (detail_success d
                 \<longleftrightarrow> produces_encoding w (min_face_size sys) (get_student_images w f)))
     \<and> successful results' = successful results
          + length (filter (\<lambda>f. produces_encoding w (min_face_size sys) (get_student_images w f)) folders)
     \<and> failed results' = failed results
          + length (filter (\<lambda>f. \<not> produces_encoding w (min_face_size sys) (get_student_images w f)) folders)
     \<and> total_students results' = total_students results"
  using nb
proof (induction folders arbitrary: sys results)
  case Nil
  then show ?case by simp
next
  case (Cons folder folders)
  let ?m = "min_face_size sys"
  let ?P = "\<lambda>f. produces_encoding w ?m (get_student_images w f)"
  from fair have completed: "mset (as_completed w (get_student_images w folder))
                               = mset (get_student_images w folder)" by blast
  from Cons.prems have nb0: "none_blocks w ?m (get_student_images w folder)" by simp
  from process_student_result [OF completed nb0, of now results]
  obtain sys1 d where step: "process_student w now sys results folder
                   = Some (sys1, (if detail_success d then add_success else add_failure) folder d results)"
    and d: "detail_success d \<longleftrightarrow> ?P folder"
    and m1: "min_face_size sys1 = ?m"
    and log1: "encode_log sys1 = encode_log sys @ get_student_images w folder"
    and pre1: "\<forall>sid. sid \<noteq> upper folder \<longrightarrow>
               map_of (precomputed_encodings sys1) sid = map_of (precomputed_encodings sys) sid"
    by blast
  let ?r1 = "(if detail_success d then add_success else add_failure) folder d results"
  have r1: "details ?r1 = AList.update folder d (details results)"
    "successful ?r1 = successful results + (if ?P folder then 1 else 0)"
    "failed ?r1 = failed results + (if ?P folder then 0 else 1)"
    "total_students ?r1 = total_students results"
    using d by (simp_all add: add_result_simps)
  from Cons.prems m1 have "\<forall>f \<in> set folders. none_blocks w (min_face_size sys1) (get_student_images w f)"
    by simp
  from Cons.IH [OF this, of ?r1]
  obtain sys' results' where loop: "process_students w now sys1 ?r1 folders = Some (sys', results')"
    and m': "min_face_size sys' = min_face_size sys1"
    and log': "encode_log sys' = encode_log sys1 @ concat (map (get_student_images w) folders)"
    and pre': "\<forall>sid. sid \<notin> upper ` set folders \<longrightarrow>
           map_of (precomputed_encodings sys') sid = map_of (precomputed_encodings sys1) sid"
    and out': "\<forall>f. f \<notin> set folders \<longrightarrow> map_of (details results') f = map_of (details ?r1) f"
    and in': "\<forall>f \<in> set folders. \<exists>d. map_of (details results') f = Some d
            \<and> (detail_success d
                 \<longleftrightarrow> produces_encoding w (min_face_size sys1) (get_student_images w f))"
    and succ': "successful results' = successful ?r1
          + length (filter (\<lambda>f. produces_encoding w (min_face_size sys1) (get_student_images w f)) folders)"
    and fail': "failed results' = failed ?r1
          + length (filter (\<lambda>f. \<not> produces_encoding w (min_face_size sys1) (get_student_images w f)) folders)"
    and total': "total_students results' = total_students ?r1"
    by blast
  have run: "process_students w now sys results (folder # folders) = Some (sys', results')"
    using step loop by simp
  have c1: "min_face_size sys' = ?m" using m' m1 by simp
  have c2: "encode_log sys' = encode_log sys @ concat (map (get_student_images w) (folder # folders))"
    using log' log1 by simp
  have c3: "\<forall>sid. sid \<notin> upper ` set (folder # folders) \<longrightarrow>
           map_of (precomputed_encodings sys') sid = map_of (precomputed_encodings sys) sid"
    using pre' pre1 by simp
  have c4: "\<forall>f. f \<notin> set (folder # folders) \<longrightarrow> map_of (details results') f = map_of (details results) f"
    using out' r1(1) by (simp add: update_conv')
  have c5: "\<forall>f \<in> set (folder # folders). \<exists>d. map_of (details results') f = Some d
            \<and> (detail_success d \<longleftrightarrow> ?P f)"
  proof
    fix f assume f: "f \<in> set (folder # folders)"
    show "\<exists>d. map_of (details results') f = Some d \<and> (detail_success d \<longleftrightarrow> ?P f)"
    proof (cases "f \<in> set folders")
      case True
      with in' m1 show ?thesis by simp
    next
      case False
      with f have "f = folder" by simp
      with False out' r1(1) have "map_of (details results') f = Some d"
        by (simp add: update_conv')
      with d \<open>f = folder\<close> show ?thesis by simp
    qed
  qed
  have c6: "successful results' = successful results + length (filter ?P (folder # folders))"
    using succ' r1(2) m1 by simp
  have c7: "failed results' = failed results + length (filter (\<lambda>f. \<not> ?P f) (folder # folders))"
    using fail' r1(3) m1 by simp
  have c8: "total_students results' = total_students results"
    using total' r1(4) by simp
  from run c1 c2 c3 c4 c5 c6 c7 c8 show ?case by blast
qed

lemma save_student_database_fields:
  "encode_log (save_student_database w now sys) = encode_log sys"
  "precomputed_encodings (save_student_database w now sys) = precomputed_encodings sys"
  "student_database (save_student_database w now sys) = student_database sys"
  "known_face_encodings (save_student_database w now sys) = known_face_encodings sys"
  "known_face_names (save_student_database w now sys) = known_face_names sys"
  by (simp_all add: save_student_database_def)

lemma batch_enough_existing:
  assumes dir: "photos_dir_exists w" and folders: "student_folders w \<noteq> []"
    and enough: "length (student_folders w) \<le> length (existing_encodings sys)"
  shows "batch_register_from_folders w now sys
           = Some (sys, Results (fold (use_existing sys) (student_folders w)
                \<lparr>total_students = length (student_folders w), successful = 0, failed = 0,
                 details = []\<rparr>))"
  using assms by (simp add: batch_register_from_folders_def Let_def)

lemma batch_processing:
  assumes fair: "\<forall>paths. mset (as_completed w paths) = mset paths"
    and nb: "\<forall>f \<in> set (student_folders w). \<not> has_encoding sys (upper f) \<longrightarrow>
               none_blocks w (min_face_size sys) (get_student_images w f)"
    and dir: "photos_dir_exists w" and folders: "student_folders w \<noteq> []"
    and few: "length (existing_encodings sys) < length (student_folders w)"
  shows "\<exists>sys' res. batch_register_from_folders w now sys = Some (sys', Results res)
     \<and> encode_log sys' = encode_log sys
          @ concat (map (get_student_images w)
                      (filter (\<lambda>f. \<not> has_encoding sys (upper f)) (student_folders w)))
     \<and> (\<forall>f \<in> set (student_folders w). has_encoding sys (upper f) \<longrightarrow>
           map_of (details res) f = Some (from_existing f)
           \<and> map_of (precomputed_encodings sys') (upper f)
               = map_of (precomputed_encodings sys) (upper f))
     \<and> (\<forall>f \<in> set (student_folders w). \<not> has_encoding sys (upper f) \<longrightarrow>
           (\<exists>d. map_of (details res) f = Some d
              \<and> (detail_success d
                   \<longleftrightarrow> produces_encoding w (min_face_size sys) (get_student_images w f))))
     \<and> successful res
         = length (filter (\<lambda>f. has_encoding sys (upper f)) (student_folders w))
           + length (filter (\<lambda>f. produces_encoding w (min_face_size sys) (get_student_images w f))
                       (filter (\<lambda>f. \<not> has_encoding sys (upper f)) (student_folders w)))
     \<and> failed res
         = length (filter (\<lambda>f. \<not> produces_encoding w (min_face_size sys) (get_student_images w f))
                       (filter (\<lambda>f. \<not> has_encoding sys (upper f)) (student_folders w)))
     \<and> total_students res = length (student_folders w)"
proof -
  let ?fs = "student_folders w"
  let ?todo = "filter (\<lambda>f. \<not> has_encoding sys (upper f)) ?fs"
  let ?r0 = "\<lparr>total_students = length ?fs, successful = 0, failed = 0, details = []\<rparr>"
  from split_students_result [of sys ?r0 "[]" ?fs]
  obtain res1 where split: "split_students sys ?r0 [] ?fs = (res1, ?todo)"
    and d1: "\<forall>f. map_of (details res1) f
            = (if f \<in> set ?fs \<and> has_encoding sys (upper f) then Some (from_existing f)
               else map_of (details ?r0) f)"
    and s1: "successful res1 = length (filter (\<lambda>f. has_encoding sys (upper f)) ?fs)"
    and f1: "failed res1 = 0" and t1: "total_students res1 = length ?fs"
    by auto
  from nb have nb': "\<forall>f \<in> set ?todo. none_blocks w (min_face_size sys) (get_student_images w f)"
    by simp
  from process_students_result [OF fair nb', of now res1]
  obtain sys2 res2 where loop: "process_students w now sys res1 ?todo = Some (sys2, res2)"
    and log2: "encode_log sys2 = encode_log sys @ concat (map (get_student_images w) ?todo)"
    and pre2: "\<forall>sid. sid \<notin> upper ` set ?todo \<longrightarrow>
           map_of (precomputed_encodings sys2) sid = map_of (precomputed_encodings sys) sid"
    and out2: "\<forall>f. f \<notin> set ?todo \<longrightarrow> map_of (details res2) f = map_of (details res1) f"
    and in2: "\<forall>f \<in> set ?todo. \<exists>d. map_of (details res2) f = Some d
            \<and> (detail_success d
                 \<longleftrightarrow> produces_encoding w (min_face_size sys) (get_student_images w f))"
    and s2: "successful res2 = successful res1
          + length (filter (\<lambda>f. produces_encoding w (min_face_size sys) (get_student_images w f)) ?todo)"
    and f2: "failed res2 = failed res1
          + length (filter (\<lambda>f. \<not> produces_encoding w (min_face_size sys) (get_student_images w f)) ?todo)"
    and t2: "total_students res2 = total_students res1"
    by blast
  have run: "batch_register_from_folders w now sys
               = Some (save_student_database w now sys2, Results res2)"
    using dir folders few split loop
    by (simp add: batch_register_from_folders_def Let_def)
  have skipped: "\<forall>f \<in> set ?fs. has_encoding sys (upper f) \<longrightarrow>
           map_of (details res2) f = Some (from_existing f)
           \<and> map_of (precomputed_encodings (save_student_database w now sys2)) (upper f)
               = map_of (precomputed_encodings sys) (upper f)"
  proof (intro ballI impI)
    fix f assume f: "f \<in> set ?fs" and enc: "has_encoding sys (upper f)"
    then have "f \<notin> set ?todo" by simp
    with out2 d1 f enc have a: "map_of (details res2) f = Some (from_existing f)" by simp
    have "upper f \<notin> upper ` set ?todo" using enc by auto
    with pre2 have "map_of (precomputed_encodings sys2) (upper f)
                      = map_of (precomputed_encodings sys) (upper f)" by blast
    with a show "map_of (details res2) f = Some (from_existing f)
           \<and> map_of (precomputed_encodings (save_student_database w now sys2)) (upper f)
               = map_of (precomputed_encodings sys) (upper f)"
      by (simp add: save_student_database_fields)
  qed
  have processed: "\<forall>f \<in> set ?fs. \<not> has_encoding sys (upper f) \<longrightarrow>
           (\<exists>d. map_of (details res2) f = Some d
              \<and> (detail_success d
                   \<longleftrightarrow> produces_encoding w (min_face_size sys) (get_student_images w f)))"
    using in2 by simp
  from run log2 skipped processed s1 f1 t1 s2 f2 t2 show ?thesis
    by (simp add: save_student_database_fields)
qed









text \<open>
  Claim C8. In a batch whose image tasks all complete, every student folder whose
  encoding file exists is skipped: its entry in the outcome map is the success entry
  "from existing encoding", none of its images is among the images submitted for encoding
  during the batch, and its encoding file after the batch is the file before the batch.
  Each such folder is counted in \<^verbatim>\<open>successful\<close>.
\<close>

theorem existing_artifact_is_skipped:
  assumes fair: "\<forall>paths. mset (as_completed w paths) = mset paths"
    and nb: "\<forall>f \<in> set (student_folders w). \<not> has_encoding sys (upper f) \<longrightarrow>
               none_blocks w (min_face_size sys) (get_student_images w f)"
    and dir: "photos_dir_exists w" and folders: "student_folders w \<noteq> []"
  shows "\<exists>sys' res new. batch_register_from_folders w now sys = Some (sys', Results res)
     \<and> encode_log sys' = encode_log sys @ new
     \<and> (\<forall>f \<in> set (student_folders w). has_encoding sys (upper f) \<longrightarrow>
           map_of (details res) f = Some (from_existing f)
           \<and> detail_success (from_existing f)
           \<and> (\<forall>img. (f, img) \<notin> set new)
           \<and> map_of (precomputed_encodings sys') (upper f)
               = map_of (precomputed_encodings sys) (upper f))
     \<and> length (filter (\<lambda>f. has_encoding sys (upper f)) (student_folders w)) \<le> successful res"
proof (cases "length (existing_encodings sys) < length (student_folders w)")
  case True
  let ?todo = "filter (\<lambda>f. \<not> has_encoding sys (upper f)) (student_folders w)"
  let ?new = "concat (map (get_student_images w) ?todo)"
  from batch_processing [OF fair nb dir folders True, of now]
  obtain sys' res where run: "batch_register_from_folders w now sys = Some (sys', Results res)"
    and log: "encode_log sys' = encode_log sys @ ?new"
    and skipped: "\<forall>f \<in> set (student_folders w). has_encoding sys (upper f) \<longrightarrow>
           map_of (details res) f = Some (from_existing f)
           \<and> map_of (precomputed_encodings sys') (upper f)
               = map_of (precomputed_encodings sys) (upper f)"
    and count: "successful res
         = length (filter (\<lambda>f. has_encoding sys (upper f)) (student_folders w))
           + length (filter (\<lambda>f. produces_encoding w (min_face_size sys) (get_student_images w f))
                       ?todo)"
    by blast
  have untouched: "(f, img) \<notin> set ?new" if "has_encoding sys (upper f)" for f img
    using that by (auto simp: get_student_images_def)
  from run log skipped count untouched show ?thesis
    by (intro exI [of _ sys'] exI [of _ res] exI [of _ ?new]) (simp add: from_existing_def)
next
  case False
  then have enough: "length (student_folders w) \<le> length (existing_encodings sys)" by simp
  let ?res = "fold (use_existing sys) (student_folders w)
                \<lparr>total_students = length (student_folders w), successful = 0, failed = 0,
                 details = []\<rparr>"
  from batch_enough_existing [OF dir folders enough, of now]
  have run: "batch_register_from_folders w now sys = Some (sys, Results ?res)" .
  from fold_use_existing [of sys "student_folders w"
      "\<lparr>total_students = length (student_folders w), successful = 0, failed = 0, details = []\<rparr>"]
  have dets: "\<forall>f \<in> set (student_folders w). has_encoding sys (upper f) \<longrightarrow>
                 map_of (details ?res) f = Some (from_existing f)"
    and count: "successful ?res
                  = length (filter (\<lambda>f. has_encoding sys (upper f)) (student_folders w))"
    by simp_all
  from run dets count show ?thesis
    by (intro exI [of _ sys] exI [of _ ?res] exI [of _ "[]"]) (simp add: from_existing_def)
qed

lemma example_batch:
  "batch_register_from_folders example_world ''2024-01-15T09:00:00'' registered_alice
     = Some (registered_alice
               \<lparr>student_database :=
                  [(''CAROL'', \<lparr>sd_name = ''Carol'', sd_encodings = [3],
                               sd_registered_date = ''2024-01-15T09:00:00'', sd_image_count = 1,
                               sd_total_encodings = 1\<rparr>)],
                known_face_encodings := [3],
                known_face_names := [''CAROL''],
                precomputed_encodings :=
                  [(''ALICE'', Artifact ''Alice'' [1] (Some ''2024-01-01T08:00:00'') (Some 1) (Some 1)),
                   (''CAROL'', Artifact ''Carol'' [3] (Some ''2024-01-15T09:00:00'') (Some 1) (Some 1))],
                database_pkl :=
                  Some ([(''CAROL'', \<lparr>sd_name = ''Carol'', sd_encodings = [3],
                               sd_registered_date = ''2024-01-15T09:00:00'', sd_image_count = 1,
                               sd_total_encodings = 1\<rparr>)], [3], [''CAROL''], ''2024-01-15T09:00:00''),
                encode_log := [(''bob'', ''noface.jpg''), (''carol'', ''c.jpg'')]\<rparr>,
             Results \<lparr>total_students = 3, successful = 2, failed = 1,
                      details = [(''alice'', FromPrecomputed ''ALICE'' ''Alice''),
                                 (''bob'', Failed ''Registration failed'' 1),
                                 (''carol'', Registered ''CAROL'' ''Carol'' 1 1)]\<rparr>)"
proof -
  have split: "\<And>results. split_students registered_alice results [] [''alice'', ''bob'', ''carol'']
     = (add_success ''alice'' (FromPrecomputed ''ALICE'' ''Alice'') results, [''bob'', ''carol''])"
    by (simp add: example_names example_has_encoding from_existing_def)
  have bob: "\<And>results. process_student example_world ''2024-01-15T09:00:00'' registered_alice
               results ''bob''
     = Some (registered_alice\<lparr>encode_log := [(''bob'', ''noface.jpg'')]\<rparr>,
             add_failure ''bob'' (Failed ''Registration failed'' 1) results)"
    by (simp add: process_student_def example_student_images example_names register_defs
        example_has_encoding example_images example_world_fields;
      simp add: registered_alice_def init_system_def)
  have carol: "\<And>results. process_student example_world ''2024-01-15T09:00:00''
               (registered_alice\<lparr>encode_log := [(''bob'', ''noface.jpg'')]\<rparr>) results ''carol''
     = Some (registered_alice
               \<lparr>student_database :=
                  [(''CAROL'', \<lparr>sd_name = ''Carol'', sd_encodings = [3],
                               sd_registered_date = ''2024-01-15T09:00:00'', sd_image_count = 1,
                               sd_total_encodings = 1\<rparr>)],
                known_face_encodings := [3],
                known_face_names := [''CAROL''],
                precomputed_encodings :=
                  [(''ALICE'', Artifact ''Alice'' [1] (Some ''2024-01-01T08:00:00'') (Some 1) (Some 1)),
                   (''CAROL'', Artifact ''Carol'' [3] (Some ''2024-01-15T09:00:00'') (Some 1) (Some 1))],
                encode_log := [(''bob'', ''noface.jpg''), (''carol'', ''c.jpg'')]\<rparr>,
             add_success ''carol'' (Registered ''CAROL'' ''Carol'' 1 1) results)"
    by (simp add: process_student_def example_student_images example_names register_defs
        example_has_encoding example_images example_world_fields stored_encodings_def;
      simp add: registered_alice_def init_system_def)
  show ?thesis
    by (simp add: batch_register_from_folders_def example_folders example_world_fields
        example_has_encoding split bob carol del: split_students.simps;
      simp add: registered_alice_def init_system_def save_student_database_def
        example_world_fields add_success_def add_failure_def)
qed

text \<open>Claim C8 on the same folders, with an encoding file for \<open>ALICE\<close> on disk.\<close>

theorem existing_artifact_is_skipped_witness:
  "(\<forall>paths. mset (as_completed example_world paths) = mset paths)
   \<and> list_all (\<lambda>f. none_blocks example_world (min_face_size registered_alice)
                     (get_student_images example_world f)) (student_folders example_world)
   \<and> photos_dir_exists example_world
   \<and> student_folders example_world = [''alice'', ''bob'', ''carol'']
   \<and> has_encoding registered_alice (upper ''alice'')
   \<and> (\<exists>sys' res new.
         batch_register_from_folders example_world ''2024-01-15T09:00:00'' registered_alice
           = Some (sys', Results res)
         \<and> encode_log sys' = encode_log registered_alice @ new
         \<and> map_of (details res) ''alice'' = Some (FromPrecomputed ''ALICE'' ''Alice'')
         \<and> (\<forall>img. (''alice'', img) \<notin> set new)
         \<and> map_of (precomputed_encodings sys') ''ALICE''
             = Some (Artifact ''Alice'' [1] (Some ''2024-01-01T08:00:00'') (Some 1) (Some 1))
         \<and> 1 \<le> successful res)"
proof -
  have h1: "\<forall>paths. mset (as_completed example_world paths) = mset paths"
    by (simp add: example_world_fields)
  have h2: "\<forall>f \<in> set (student_folders example_world). \<not> has_encoding registered_alice (upper f) \<longrightarrow>
               none_blocks example_world (min_face_size registered_alice)
                 (get_student_images example_world f)"
    by (simp add: example_folders example_student_images none_blocks_def example_has_encoding
        example_images)
  have h3: "photos_dir_exists example_world" by (simp add: example_world_fields)
  have h4: "student_folders example_world \<noteq> []" by (simp add: example_folders)
  have pre: "map_of (precomputed_encodings registered_alice) ''ALICE''
               = Some (Artifact ''Alice'' [1] (Some ''2024-01-01T08:00:00'') (Some 1) (Some 1))"
    by (simp add: registered_alice_def init_system_def)
  have count: "length (filter (\<lambda>f. has_encoding registered_alice (upper f))
                         (student_folders example_world)) = 1"
    by (simp add: example_folders example_names example_has_encoding)
  from existing_artifact_is_skipped [OF h1 h2 h3 h4, of "''2024-01-15T09:00:00''"]
  obtain sys' res new where
    "batch_register_from_folders example_world ''2024-01-15T09:00:00'' registered_alice
           = Some (sys', Results res)"
    "encode_log sys' = encode_log registered_alice @ new"
    "map_of (details res) ''alice'' = Some (from_existing ''alice'')"
    "\<forall>img. (''alice'', img) \<notin> set new"
    "map_of (precomputed_encodings sys') (upper ''alice'')
       = map_of (precomputed_encodings registered_alice) (upper ''alice'')"
    "1 \<le> successful res"
    by (auto simp: example_folders example_names example_has_encoding count)
  then have "\<exists>sys' res new.
         batch_register_from_folders example_world ''2024-01-15T09:00:00'' registered_alice
           = Some (sys', Results res)
         \<and> encode_log sys' = encode_log registered_alice @ new
         \<and> map_of (details res) ''alice'' = Some (FromPrecomputed ''ALICE'' ''Alice'')
         \<and> (\<forall>img. (''alice'', img) \<notin> set new)
         \<and> map_of (precomputed_encodings sys') ''ALICE''
             = Some (Artifact ''Alice'' [1] (Some ''2024-01-01T08:00:00'') (Some 1) (Some 1))
         \<and> 1 \<le> successful res"
    by (auto simp: from_existing_def example_names pre)
  with h1 h3 show ?thesis
    by (simp add: example_folders example_student_images none_blocks_def example_has_encoding
        example_images example_names)
qed

end
